theory Spec2Isabelle
  imports Complex_Main
begin

section \<open>The training script \<^verbatim>\<open>Machine_learning/Training.py\<close>\<close>

text \<open>
  The script is a sequence of calls into pandas, scikit-learn, LightGBM and joblib.
  Its own code is the order of the calls, the data passed from one call to the next,
  two guards that raise, one condition on the target column, and one \<^verbatim>\<open>try/except\<close>
  inside a loop over three models. The model below keeps exactly that: every library
  function the script calls is a field of the record \<open>lib\<close> (what it computes is the
  library's business and is left open), and the script is a program over a state
  holding the file system, the objects that are shared by reference, and the log of
  the calls made so far.
\<close>

subsection \<open>Values\<close>

text \<open>
  The script passes numbers from one library call to the next and never computes with
  them, so a number is a value of type \<open>real\<close> that is only stored and compared.
  \<open>Integer\<close> and \<open>Floating\<close> stand for the integer and floating dtypes of the platform.
\<close>
datatype cell = Str string | Num real | Missing

datatype dtype = Object | Integer | Floating | Boolean | Other string

record column =
  dtype :: dtype
  cells :: "cell list"

text \<open>A DataFrame: its columns in order, each with its label.\<close>
type_synonym frame = "(string \<times> column) list"

text \<open>A two-dimensional numpy array, by rows; a label vector.\<close>
type_synonym ndarray = "real list list"
type_synonym labels = "cell list"

datatype pyval = PBool bool | PStr string | PInt int | PFloat real

text \<open>
  An estimator object: its class, the keyword arguments of its constructor, and what
  fitting stored in it (\<open>None\<close> before the first fit). The type \<open>'o\<close> stands for the
  fitted state, which only the library reads.
\<close>
record 'o estimator =
  cls :: string
  params :: "(string \<times> pyval) list"
  fitted :: "'o option"

record 'o grid_search_cv =
  gs_estimator :: "'o estimator"
  gs_param_grid :: "(string \<times> pyval list) list"
  gs_scoring :: string
  gs_cv :: nat
  gs_n_jobs :: int

record metrics =
  Accuracy :: real
  Precision :: real
  Recall :: real
  F1_score :: real
  AUC_ROC :: "real option"

text \<open>
  What a file holds. A file the script writes is recorded as the object that was
  serialised into it; \<open>Bytes\<close> is any other file, such as the Excel input.
\<close>
datatype 'o content =
    Bytes string
  | Csv_frame frame
  | Csv_array "string list" ndarray
  | Csv_labels labels
  | Pickle_estimator "'o estimator"
  | Pickle_scaler "'o option"

text \<open>
  Exceptions. The first two are the script's own \<^verbatim>\<open>raise\<close> statements (lines 21
  and 33), with the value formatted into the message; the third is any exception
  raised inside a library call, with the library's description of it. All of them are
  instances of Python's \<^verbatim>\<open>Exception\<close>.
\<close>
datatype exn =
    FileNotFoundError string
  | ValueError string
  | Library_exception string

subsection \<open>The libraries\<close>

text \<open>
  Every library function returns either the description of the exception it raised
  (\<open>Inl\<close>) or its result. The two scaler calls and \<open>fit\<close> also return the object they
  were called on as the call leaves it, since a library may write into it.
\<close>
record 'o lib =
  read_excel :: "'o content \<Rightarrow> string + frame"
  label_encode :: "cell list \<Rightarrow> string + cell list"
  train_test_split ::
    "frame \<Rightarrow> labels \<Rightarrow> real \<Rightarrow> nat \<Rightarrow> labels \<Rightarrow> string + (frame \<times> frame \<times> labels \<times> labels)"
  scaler_fit_transform :: "frame \<Rightarrow> (string + ('o \<times> ndarray)) \<times> frame"
  scaler_transform :: "'o \<Rightarrow> frame \<Rightarrow> (string + ndarray) \<times> frame"
  grid_search_fit ::
    "'o grid_search_cv \<Rightarrow> ndarray \<Rightarrow> labels \<Rightarrow> string + ('o estimator \<times> (string \<times> pyval) list)"
  fit :: "'o estimator \<Rightarrow> ndarray \<Rightarrow> labels \<Rightarrow> string option \<times> 'o estimator"
  predict :: "'o estimator \<Rightarrow> ndarray \<Rightarrow> string + labels"
  accuracy_score :: "labels \<Rightarrow> labels \<Rightarrow> string + real"
  precision_score :: "labels \<Rightarrow> labels \<Rightarrow> string \<Rightarrow> string + real"
  recall_score :: "labels \<Rightarrow> labels \<Rightarrow> string \<Rightarrow> string + real"
  f1_score :: "labels \<Rightarrow> labels \<Rightarrow> string \<Rightarrow> string + real"
  has_predict_proba :: "'o estimator \<Rightarrow> bool"
  predict_proba :: "'o estimator \<Rightarrow> ndarray \<Rightarrow> string + ndarray"
  roc_auc_score :: "labels \<Rightarrow> real list \<Rightarrow> string + real"

subsection \<open>State and programs\<close>

text \<open>The calls and writes the script makes, in the order it makes them.\<close>
datatype event =
    Makedirs string
  | Read_excel string
  | Label_encode_target
  | Label_encode_column string
  | Train_test_split frame labels
  | Copy_frame nat nat
  | Scaler_fit_transform
  | Scaler_transform
  | To_csv string
  | Grid_search_fit
  | Fit nat
  | Predict nat
  | Print_error string
  | Dump string

text \<open>
  \<open>frames\<close> and \<open>estimators\<close> are the stores of the DataFrame and estimator objects
  that the script reaches through more than one name; an address is a natural number.
\<close>
record 'o state =
  files :: "string \<rightharpoonup> 'o content"
  frames :: "nat \<Rightarrow> frame"
  estimators :: "nat \<Rightarrow> 'o estimator"
  trace :: "event list"

type_synonym ('o, 'a) prog = "'o state \<Rightarrow> (exn + 'a) \<times> 'o state"

definition ret :: "'a \<Rightarrow> ('o, 'a) prog" where
  "ret a = (\<lambda>s. (Inr a, s))"

definition throw :: "exn \<Rightarrow> ('o, 'a) prog" where
  "throw e = (\<lambda>s. (Inl e, s))"

definition andthen :: "('o, 'a) prog \<Rightarrow> ('a \<Rightarrow> ('o, 'b) prog) \<Rightarrow> ('o, 'b) prog" where
  "andthen m f = (\<lambda>s. case m s of (Inl e, s') \<Rightarrow> (Inl e, s') | (Inr a, s') \<Rightarrow> f a s')"

definition try_except :: "('o, 'a) prog \<Rightarrow> (exn \<Rightarrow> ('o, 'a) prog) \<Rightarrow> ('o, 'a) prog" where
  "try_except m h = (\<lambda>s. case m s of (Inl e, s') \<Rightarrow> h e s' | (Inr a, s') \<Rightarrow> (Inr a, s'))"

definition emit :: "event \<Rightarrow> ('o, unit) prog" where
  "emit ev = (\<lambda>s. (Inr (), s\<lparr>trace := trace s @ [ev]\<rparr>))"

definition lib_call :: "string + 'a \<Rightarrow> ('o, 'a) prog" where
  "lib_call r = (case r of Inl e \<Rightarrow> throw (Library_exception e) | Inr a \<Rightarrow> ret a)"

definition get_files :: "('o, string \<rightharpoonup> 'o content) prog" where
  "get_files = (\<lambda>s. (Inr (files s), s))"

definition write_file :: "string \<Rightarrow> 'o content \<Rightarrow> ('o, unit) prog" where
  "write_file p c = (\<lambda>s. (Inr (), s\<lparr>files := (files s)(p \<mapsto> c)\<rparr>))"

definition load_frame :: "nat \<Rightarrow> ('o, frame) prog" where
  "load_frame a = (\<lambda>s. (Inr (frames s a), s))"

definition store_frame :: "nat \<Rightarrow> frame \<Rightarrow> ('o, unit) prog" where
  "store_frame a f = (\<lambda>s. (Inr (), s\<lparr>frames := (frames s)(a := f)\<rparr>))"

definition load_estimator :: "nat \<Rightarrow> ('o, 'o estimator) prog" where
  "load_estimator a = (\<lambda>s. (Inr (estimators s a), s))"

definition store_estimator :: "nat \<Rightarrow> 'o estimator \<Rightarrow> ('o, unit) prog" where
  "store_estimator a m = (\<lambda>s. (Inr (), s\<lparr>estimators := (estimators s)(a := m)\<rparr>))"

subsection \<open>The pandas operations the script uses on a DataFrame\<close>

text \<open>\<^verbatim>\<open>df.columns\<close>, \<^verbatim>\<open>df.drop(columns=[c])\<close>, \<^verbatim>\<open>df[c]\<close>, \<^verbatim>\<open>df[c] = v\<close>,
  \<^verbatim>\<open>df.select_dtypes(include=["object"]).columns\<close>, \<^verbatim>\<open>s.unique()\<close>.\<close>

definition columns :: "frame \<Rightarrow> string list" where
  "columns df = map fst df"

definition drop_columns :: "frame \<Rightarrow> string list \<Rightarrow> frame" where
  "drop_columns df cs = filter (\<lambda>(n, c). n \<notin> set cs) df"

definition getitem :: "frame \<Rightarrow> string \<Rightarrow> ('o, column) prog" where
  "getitem df c =
     (case map_of df c of
        None \<Rightarrow> throw (Library_exception ''KeyError'')
      | Some col \<Rightarrow> ret col)"

definition setitem :: "frame \<Rightarrow> string \<Rightarrow> column \<Rightarrow> frame" where
  "setitem df c v =
     (if c \<in> set (columns df)
      then map (\<lambda>(n, old). if n = c then (n, v) else (n, old)) df
      else df @ [(c, v)])"

definition select_dtypes_object :: "frame \<Rightarrow> string list" where
  "select_dtypes_object df = map fst (filter (\<lambda>(n, c). dtype c = Object) df)"

definition unique :: "cell list \<Rightarrow> cell list" where
  "unique xs = remdups xs"

text \<open>\<^verbatim>\<open>a[:, 1]\<close> on a two-dimensional array: the second entry of every row, an
  IndexError when the rows have fewer than two entries.\<close>
definition column1 :: "ndarray \<Rightarrow> string + real list" where
  "column1 a =
     (if list_all (\<lambda>r. 1 < length r) a then Inr (map (\<lambda>r. r ! 1) a) else Inl ''IndexError'')"

subsection \<open>Constants of the script\<close>

definition file_path :: string where
  "file_path = ''C:/Users/hp/Documents/GitHub/pediatric-appendicitis-diagnosis/data/cleaned_data.xlsx''"

definition target_col :: string where
  "target_col = ''Diagnosis''"

definition param_grid :: "(string \<times> pyval list) list" where
  "param_grid =
     [(''n_estimators'', [PInt 100, PInt 200, PInt 300]),
      (''learning_rate'', [PFloat 0.01, PFloat 0.1, PFloat 0.3]),
      (''max_depth'', [PInt 3, PInt 5, PInt 10]),
      (''num_leaves'', [PInt 20, PInt 31, PInt 40]),
      (''min_child_samples'', [PInt 5, PInt 10, PInt 20])]"

definition lgbm :: "'o estimator" where
  "lgbm = \<lparr>cls = ''LGBMClassifier'', params = [(''random_state'', PInt 42)], fitted = None\<rparr>"

definition grid_search :: "'o grid_search_cv" where
  "grid_search =
     \<lparr>gs_estimator = lgbm, gs_param_grid = param_grid, gs_scoring = ''f1_weighted'',
      gs_cv = 5, gs_n_jobs = - 1\<rparr>"

definition svc :: "'o estimator" where
  "svc = \<lparr>cls = ''SVC'',
          params = [(''probability'', PBool True), (''kernel'', PStr ''linear''),
                    (''random_state'', PInt 42)],
          fitted = None\<rparr>"

definition random_forest :: "'o estimator" where
  "random_forest =
     \<lparr>cls = ''RandomForestClassifier'',
      params = [(''n_jobs'', PInt (- 1)), (''random_state'', PInt 42)],
      fitted = None\<rparr>"

text \<open>The key \<^verbatim>\<open>"LightGBM Optimis\<close>e-acute\<^verbatim>\<open>"\<close>; its last letter is two bytes in UTF-8.\<close>
definition lightgbm_name :: string where
  "lightgbm_name = ''LightGBM Optimis'' @ [CHR 0xC3, CHR 0xA9]"

text \<open>Addresses of the shared objects: the two DataFrames returned by the split, their
  copies, and the three estimators of the dictionary \<^verbatim>\<open>models\<close>.\<close>
definition X_train_ref :: nat where "X_train_ref = 0"
definition X_test_ref :: nat where "X_test_ref = 1"
definition X_train_original_ref :: nat where "X_train_original_ref = 2"
definition X_test_original_ref :: nat where "X_test_original_ref = 3"

definition best_model_ref :: nat where "best_model_ref = 0"
definition svm_ref :: nat where "svm_ref = 1"
definition rf_ref :: nat where "rf_ref = 2"

subsection \<open>Lines 13 to 33: the data directory, the input file, the target column\<close>

text \<open>
  \<^verbatim>\<open>os.makedirs("data", exist_ok=True)\<close> is recorded as a call; the directory tree
  itself is not part of the state, and writing below \<^verbatim>\<open>data/\<close> succeeds.
  \<^verbatim>\<open>os.path.exists(file_path)\<close> asks whether the file system has an entry at the path.
\<close>

definition load_dataset :: "'o lib \<Rightarrow> ('o, frame) prog" where
  "load_dataset L =
     andthen (emit (Makedirs ''data'')) (\<lambda>_.
     andthen get_files (\<lambda>fs.
       case fs file_path of
         None \<Rightarrow> throw (FileNotFoundError file_path)
       | Some c \<Rightarrow>
           andthen (emit (Read_excel file_path)) (\<lambda>_.
           andthen (lib_call (read_excel L c)) (\<lambda>dataset.
             if target_col \<notin> set (columns dataset)
             then throw (ValueError target_col)
             else ret dataset))))"

subsection \<open>Lines 36 to 47: features, target and label encoding\<close>

text \<open>The loop of lines 45 to 47 over the labels of the object columns.\<close>
fun encode_columns :: "'o lib \<Rightarrow> string list \<Rightarrow> frame \<Rightarrow> ('o, frame) prog" where
  "encode_columns L [] X = ret X"
| "encode_columns L (col # cols) X =
     andthen (getitem X col) (\<lambda>old.
     andthen (emit (Label_encode_column col)) (\<lambda>_.
     andthen (lib_call (label_encode L (cells old))) (\<lambda>v.
       encode_columns L cols (setitem X col \<lparr>dtype = Integer, cells = v\<rparr>))))"

text \<open>The condition of line 40.\<close>
definition target_needs_encoding :: "column \<Rightarrow> bool" where
  "target_needs_encoding y = (dtype y = Object \<or> 2 < length (unique (cells y)))"

definition encode :: "'o lib \<Rightarrow> frame \<Rightarrow> ('o, frame \<times> labels) prog" where
  "encode L dataset =
     (let X = drop_columns dataset [target_col] in
      andthen (getitem dataset target_col) (\<lambda>y.
      andthen (if target_needs_encoding y
               then andthen (emit Label_encode_target) (\<lambda>_.
                      lib_call (label_encode L (cells y)))
               else ret (cells y)) (\<lambda>y'.
      andthen (encode_columns L (select_dtypes_object X) X) (\<lambda>X'.
        ret (X', y')))))"

subsection \<open>Lines 50 to 57: the split and the copies\<close>

text \<open>\<^verbatim>\<open>df.copy()\<close>: a new object with the contents of the old one.\<close>
definition copy_frame :: "nat \<Rightarrow> nat \<Rightarrow> ('o, unit) prog" where
  "copy_frame src dst =
     andthen (emit (Copy_frame src dst)) (\<lambda>_.
     andthen (load_frame src) (\<lambda>f. store_frame dst f))"

definition split_data :: "'o lib \<Rightarrow> frame \<Rightarrow> labels \<Rightarrow> ('o, labels \<times> labels) prog" where
  "split_data L X y =
     andthen (emit (Train_test_split X y)) (\<lambda>_.
     andthen (lib_call (train_test_split L X y 0.2 42 y)) (\<lambda>(Xtr, Xte, ytr, yte).
     andthen (store_frame X_train_ref Xtr) (\<lambda>_.
     andthen (store_frame X_test_ref Xte) (\<lambda>_.
     andthen (copy_frame X_train_ref X_train_original_ref) (\<lambda>_.
     andthen (copy_frame X_test_ref X_test_original_ref) (\<lambda>_.
       ret (ytr, yte)))))))"

subsection \<open>Lines 60 to 65: scaling, and the two files of unscaled features\<close>

text \<open>\<^verbatim>\<open>df.to_csv(path, index=False)\<close> on the DataFrame object at an address.\<close>
definition to_csv :: "nat \<Rightarrow> string \<Rightarrow> ('o, unit) prog" where
  "to_csv a p =
     andthen (emit (To_csv p)) (\<lambda>_.
     andthen (load_frame a) (\<lambda>f. write_file p (Csv_frame f)))"

text \<open>A library call on the DataFrame object at an address: the object is left as
  the library leaves it, also when the call raises.\<close>
definition call_on_frame :: "nat \<Rightarrow> (frame \<Rightarrow> (string + 'a) \<times> frame) \<Rightarrow> ('o, 'a) prog" where
  "call_on_frame a f =
     andthen (load_frame a) (\<lambda>df.
       case f df of (r, df') \<Rightarrow>
         andthen (store_frame a df') (\<lambda>_. lib_call r))"

definition scale :: "'o lib \<Rightarrow> ('o, 'o \<times> ndarray \<times> ndarray) prog" where
  "scale L =
     andthen (emit Scaler_fit_transform) (\<lambda>_.
     andthen (call_on_frame X_train_ref (scaler_fit_transform L)) (\<lambda>(sc, Xtr).
     andthen (emit Scaler_transform) (\<lambda>_.
     andthen (call_on_frame X_test_ref (scaler_transform L sc)) (\<lambda>Xte.
     andthen (to_csv X_train_original_ref ''data/X_train_original.csv'') (\<lambda>_.
     andthen (to_csv X_test_original_ref ''data/X_test_original.csv'') (\<lambda>_.
       ret (sc, Xtr, Xte)))))))"

subsection \<open>Lines 68 to 93: the grid search, and the first fit of its best estimator\<close>

text \<open>\<^verbatim>\<open>model.fit(X_train, y_train)\<close> on the estimator object at an address.\<close>
definition fit_estimator :: "'o lib \<Rightarrow> nat \<Rightarrow> ndarray \<Rightarrow> labels \<Rightarrow> ('o, unit) prog" where
  "fit_estimator L a Xtr ytr =
     andthen (emit (Fit a)) (\<lambda>_.
     andthen (load_estimator a) (\<lambda>m.
       case fit L m Xtr ytr of (raised, m') \<Rightarrow>
         andthen (store_estimator a m') (\<lambda>_.
           case raised of
             None \<Rightarrow> ret ()
           | Some e \<Rightarrow> throw (Library_exception e))))"

definition tune :: "'o lib \<Rightarrow> ndarray \<Rightarrow> labels \<Rightarrow> ('o, unit) prog" where
  "tune L Xtr ytr =
     andthen (emit Grid_search_fit) (\<lambda>_.
     andthen (lib_call (grid_search_fit L grid_search Xtr ytr)) (\<lambda>(best_estimator, best_params).
     andthen (store_estimator best_model_ref best_estimator) (\<lambda>_.
       fit_estimator L best_model_ref Xtr ytr)))"

subsection \<open>Lines 96 to 134: the three models and the comparison loop\<close>

definition models :: "(string \<times> nat) list" where
  "models = [(''SVM'', svm_ref), (''Random Forest'', rf_ref), (lightgbm_name, best_model_ref)]"

definition define_models :: "('o, (string \<times> nat) list) prog" where
  "define_models =
     andthen (store_estimator svm_ref svc) (\<lambda>_.
     andthen (store_estimator rf_ref random_forest) (\<lambda>_.
       ret models))"

text \<open>
  Lines 112 to 131 call the library on values only, so they are written as a function
  into the library's own result type: the first call that raises ends the chain.
\<close>
definition with_result :: "string + 'a \<Rightarrow> ('a \<Rightarrow> string + 'b) \<Rightarrow> string + 'b" where
  "with_result r f = (case r of Inl e \<Rightarrow> Inl e | Inr a \<Rightarrow> f a)"

text \<open>Lines 121 and 122.\<close>
definition auc_of :: "'o lib \<Rightarrow> 'o estimator \<Rightarrow> ndarray \<Rightarrow> labels \<Rightarrow> string + real option" where
  "auc_of L m Xte yte =
     with_result (if has_predict_proba L m
                  then with_result (predict_proba L m Xte) (\<lambda>P.
                       with_result (column1 P) (\<lambda>c. Inr (Some c)))
                  else Inr None) (\<lambda>y_prob.
       case y_prob of
         Some c \<Rightarrow> with_result (roc_auc_score L yte c) (\<lambda>auc. Inr (Some auc))
       | None \<Rightarrow> Inr None)"

text \<open>Lines 112 to 131: the predictions and the five metrics of a fitted model.\<close>
definition score :: "'o lib \<Rightarrow> 'o estimator \<Rightarrow> ndarray \<Rightarrow> labels \<Rightarrow> string + metrics" where
  "score L m Xte yte =
     with_result (predict L m Xte) (\<lambda>y_pred.
     with_result (accuracy_score L yte y_pred) (\<lambda>accuracy.
     with_result (precision_score L yte y_pred ''weighted'') (\<lambda>precision.
     with_result (recall_score L yte y_pred ''weighted'') (\<lambda>recall.
     with_result (f1_score L yte y_pred ''weighted'') (\<lambda>f1.
     with_result (auc_of L m Xte yte) (\<lambda>auc.
       Inr \<lparr>Accuracy = accuracy, Precision = precision, Recall = recall,
            F1_score = f1, AUC_ROC = auc\<rparr>))))))"

text \<open>The body of the \<^verbatim>\<open>try\<close>, lines 108 to 131, up to the entry it stores.\<close>
definition evaluate :: "'o lib \<Rightarrow> ndarray \<Rightarrow> labels \<Rightarrow> ndarray \<Rightarrow> labels \<Rightarrow> nat \<Rightarrow> ('o, metrics) prog" where
  "evaluate L Xtr ytr Xte yte a =
     andthen (fit_estimator L a Xtr ytr) (\<lambda>_.
     andthen (emit (Predict a)) (\<lambda>_.
     andthen (load_estimator a) (\<lambda>m.
       lib_call (score L m Xte yte))))"

text \<open>The loop of line 105 with its \<^verbatim>\<open>try/except Exception\<close>; the handler prints
  the error and the loop goes on.\<close>
fun train_and_evaluate ::
  "'o lib \<Rightarrow> ndarray \<Rightarrow> labels \<Rightarrow> ndarray \<Rightarrow> labels \<Rightarrow> (string \<times> nat) list \<Rightarrow>
   (string \<rightharpoonup> metrics) \<Rightarrow> ('o, string \<rightharpoonup> metrics) prog" where
  "train_and_evaluate L Xtr ytr Xte yte [] results = ret results"
| "train_and_evaluate L Xtr ytr Xte yte ((name, a) # ms) results =
     andthen (try_except
                (andthen (evaluate L Xtr ytr Xte yte a) (\<lambda>r. ret (results(name \<mapsto> r))))
                (\<lambda>e. andthen (emit (Print_error name)) (\<lambda>_. ret results))) (\<lambda>results'.
       train_and_evaluate L Xtr ytr Xte yte ms results')"

subsection \<open>Lines 145 to 155: the scaled splits, the labels, the model and the scaler\<close>

definition csv_of_array :: "string list \<Rightarrow> ndarray \<Rightarrow> string \<Rightarrow> ('o, unit) prog" where
  "csv_of_array cols a p =
     andthen (emit (To_csv p)) (\<lambda>_. write_file p (Csv_array cols a))"

definition csv_of_labels :: "labels \<Rightarrow> string \<Rightarrow> ('o, unit) prog" where
  "csv_of_labels y p =
     andthen (emit (To_csv p)) (\<lambda>_. write_file p (Csv_labels y))"

definition dump_estimator :: "nat \<Rightarrow> string \<Rightarrow> ('o, unit) prog" where
  "dump_estimator a p =
     andthen (emit (Dump p)) (\<lambda>_.
     andthen (load_estimator a) (\<lambda>m. write_file p (Pickle_estimator m)))"

definition dump_scaler :: "'o \<Rightarrow> string \<Rightarrow> ('o, unit) prog" where
  "dump_scaler sc p =
     andthen (emit (Dump p)) (\<lambda>_. write_file p (Pickle_scaler (Some sc)))"

definition save :: "frame \<Rightarrow> 'o \<Rightarrow> ndarray \<Rightarrow> ndarray \<Rightarrow> labels \<Rightarrow> labels \<Rightarrow> ('o, unit) prog" where
  "save X sc Xtr Xte ytr yte =
     andthen (csv_of_array (columns X) Xtr ''data/X_train.csv'') (\<lambda>_.
     andthen (csv_of_array (columns X) Xte ''data/X_test.csv'') (\<lambda>_.
     andthen (csv_of_labels ytr ''data/y_train.csv'') (\<lambda>_.
     andthen (csv_of_labels yte ''data/y_test.csv'') (\<lambda>_.
     andthen (dump_estimator best_model_ref ''data/best_model.pkl'') (\<lambda>_.
       dump_scaler sc ''data/scaler.pkl'')))))"

subsection \<open>The script\<close>

text \<open>The module's variables when the script has run to its end (\<open>X_all\<close> and \<open>y_all\<close>
  are the script's \<^verbatim>\<open>X\<close> and \<^verbatim>\<open>y\<close>).\<close>
record 'o namespace =
  X_all :: frame
  y_all :: labels
  X_train :: ndarray
  X_test :: ndarray
  y_train :: labels
  y_test :: labels
  scaler :: 'o
  results :: "string \<rightharpoonup> metrics"

definition script :: "'o lib \<Rightarrow> ('o, 'o namespace) prog" where
  "script L =
     andthen (load_dataset L) (\<lambda>dataset.
     andthen (encode L dataset) (\<lambda>(X', y').
     andthen (split_data L X' y') (\<lambda>(ytr, yte).
     andthen (scale L) (\<lambda>(sc, Xtr, Xte).
     andthen (tune L Xtr ytr) (\<lambda>_.
     andthen define_models (\<lambda>ms.
     andthen (train_and_evaluate L Xtr ytr Xte yte ms Map.empty) (\<lambda>res.
     andthen (save X' sc Xtr Xte ytr yte) (\<lambda>_.
       ret \<lparr>X_all = X', y_all = y', X_train = Xtr, X_test = Xte, y_train = ytr, y_test = yte,
            scaler = sc, results = res\<rparr>))))))))"

text \<open>The state the script starts in: the files that exist, no object yet, no call made.\<close>
definition init :: "(string \<rightharpoonup> 'o content) \<Rightarrow> 'o state" where
  "init fs =
     \<lparr>files = fs, frames = (\<lambda>_. []),
      estimators = (\<lambda>_. \<lparr>cls = [], params = [], fitted = None\<rparr>), trace = []\<rparr>"

definition run :: "'o lib \<Rightarrow> (string \<rightharpoonup> 'o content) \<Rightarrow> (exn + 'o namespace) \<times> 'o state" where
  "run L fs = script L (init fs)"

subsection \<open>Observing a run\<close>

text \<open>The exception or the final variables of a run, and the state it leaves.\<close>
definition outcome :: "'o lib \<Rightarrow> (string \<rightharpoonup> 'o content) \<Rightarrow> exn + 'o namespace" where
  "outcome L fs = fst (run L fs)"

definition final :: "'o lib \<Rightarrow> (string \<rightharpoonup> 'o content) \<Rightarrow> 'o state" where
  "final L fs = snd (run L fs)"

text \<open>
  The loop in closed form. For a model object \<open>m\<close>, \<open>refit\<close> is the object as
  \<^verbatim>\<open>m.fit(X_train, y_train)\<close> leaves it, \<open>attempt\<close> is what the body of the \<^verbatim>\<open>try\<close>
  yields (the exception raised by the fit or by the scoring, or the metrics), and
  \<open>iteration_events\<close> are the calls one iteration makes. The three \<open>loop_\<close> functions
  run these over a list of models; \<open>train_and_evaluate_run\<close> below proves that the loop
  computes exactly them.
\<close>
definition attempt :: "'o lib \<Rightarrow> ndarray \<Rightarrow> labels \<Rightarrow> ndarray \<Rightarrow> labels \<Rightarrow> 'o estimator \<Rightarrow> string + metrics" where
  "attempt L Xtr ytr Xte yte m =
     (case fit L m Xtr ytr of
        (Some e, m') \<Rightarrow> Inl e
      | (None, m') \<Rightarrow> score L m' Xte yte)"

definition refit :: "'o lib \<Rightarrow> ndarray \<Rightarrow> labels \<Rightarrow> 'o estimator \<Rightarrow> 'o estimator" where
  "refit L Xtr ytr m = snd (fit L m Xtr ytr)"

definition iteration_events ::
  "'o lib \<Rightarrow> ndarray \<Rightarrow> labels \<Rightarrow> ndarray \<Rightarrow> labels \<Rightarrow> string \<Rightarrow> nat \<Rightarrow> 'o estimator \<Rightarrow> event list" where
  "iteration_events L Xtr ytr Xte yte name a m =
     (case fit L m Xtr ytr of
        (Some e, m') \<Rightarrow> [Fit a, Print_error name]
      | (None, m') \<Rightarrow>
          (case score L m' Xte yte of
             Inl e \<Rightarrow> [Fit a, Predict a, Print_error name]
           | Inr r \<Rightarrow> [Fit a, Predict a]))"

fun loop_estimators ::
  "'o lib \<Rightarrow> ndarray \<Rightarrow> labels \<Rightarrow> (string \<times> nat) list \<Rightarrow> (nat \<Rightarrow> 'o estimator) \<Rightarrow> (nat \<Rightarrow> 'o estimator)" where
  "loop_estimators L Xtr ytr [] E = E"
| "loop_estimators L Xtr ytr ((name, a) # ms) E =
     loop_estimators L Xtr ytr ms (E(a := refit L Xtr ytr (E a)))"

fun loop_results ::
  "'o lib \<Rightarrow> ndarray \<Rightarrow> labels \<Rightarrow> ndarray \<Rightarrow> labels \<Rightarrow> (string \<times> nat) list \<Rightarrow>
   (nat \<Rightarrow> 'o estimator) \<Rightarrow> (string \<rightharpoonup> metrics) \<Rightarrow> (string \<rightharpoonup> metrics)" where
  "loop_results L Xtr ytr Xte yte [] E res = res"
| "loop_results L Xtr ytr Xte yte ((name, a) # ms) E res =
     loop_results L Xtr ytr Xte yte ms (E(a := refit L Xtr ytr (E a)))
       (case attempt L Xtr ytr Xte yte (E a) of Inl e \<Rightarrow> res | Inr r \<Rightarrow> res(name \<mapsto> r))"

fun loop_events ::
  "'o lib \<Rightarrow> ndarray \<Rightarrow> labels \<Rightarrow> ndarray \<Rightarrow> labels \<Rightarrow> (string \<times> nat) list \<Rightarrow>
   (nat \<Rightarrow> 'o estimator) \<Rightarrow> event list" where
  "loop_events L Xtr ytr Xte yte [] E = []"
| "loop_events L Xtr ytr Xte yte ((name, a) # ms) E =
     iteration_events L Xtr ytr Xte yte name a (E a) @
     loop_events L Xtr ytr Xte yte ms (E(a := refit L Xtr ytr (E a)))"

subsection \<open>An example input\<close>

text \<open>
  A small data set and a stand-in for the libraries, for the examples that accompany
  the theorems: ten rows, a split that puts the first eight rows in the training set,
  and classifiers of which the two untuned ones predict the two test rows right and
  the tuned one predicts both wrong.
\<close>
definition first_rows :: "nat \<Rightarrow> frame \<Rightarrow> frame" where
  "first_rows k df = map (\<lambda>(n, c). (n, c\<lparr>cells := take k (cells c)\<rparr>)) df"

definition last_rows :: "nat \<Rightarrow> frame \<Rightarrow> frame" where
  "last_rows k df = map (\<lambda>(n, c). (n, c\<lparr>cells := drop k (cells c)\<rparr>)) df"

definition demo_dataset :: frame where
  "demo_dataset =
     [(''Age'', \<lparr>dtype = Floating, cells = map Num [5, 7, 9, 11, 6, 8, 10, 12, 4, 13]\<rparr>),
      (''Sex'', \<lparr>dtype = Object,
                 cells = map Str [''F'', ''M'', ''M'', ''F'', ''F'', ''M'', ''F'', ''M'', ''M'', ''F'']\<rparr>),
      (''Diagnosis'', \<lparr>dtype = Object,
                       cells = map Str [''appendicitis'', ''no appendicitis'', ''appendicitis'',
                                        ''no appendicitis'', ''appendicitis'', ''no appendicitis'',
                                        ''appendicitis'', ''no appendicitis'', ''appendicitis'',
                                        ''no appendicitis'']\<rparr>)]"

definition demo_files :: "string \<rightharpoonup> nat content" where
  "demo_files = [file_path \<mapsto> Bytes ''cleaned_data'']"

definition demo_best :: "nat estimator" where
  "demo_best =
     \<lparr>cls = ''LGBMClassifier'',
      params = [(''random_state'', PInt 42), (''n_estimators'', PInt 100),
                (''learning_rate'', PFloat 0.1), (''max_depth'', PInt 3),
                (''num_leaves'', PInt 20), (''min_child_samples'', PInt 5)],
      fitted = Some 1\<rparr>"

definition demo_lib :: "nat lib" where
  "demo_lib =
     \<lparr>read_excel = (\<lambda>c. Inr demo_dataset),
      label_encode =
        (\<lambda>xs. Inr (map (\<lambda>x. if x = Str ''F'' \<or> x = Str ''appendicitis'' then Num 0 else Num 1) xs)),
      train_test_split =
        (\<lambda>X y test_size random_state stratify.
           Inr (first_rows 8 X, last_rows 8 X, take 8 y, drop 8 y)),
      scaler_fit_transform = (\<lambda>df. (Inr (1, replicate 8 [0, 0]), df)),
      scaler_transform = (\<lambda>sc df. (Inr (replicate 2 [0, 0]), df)),
      grid_search_fit = (\<lambda>g Xtr ytr. Inr (demo_best, tl (params demo_best))),
      fit = (\<lambda>m Xtr ytr. (None, m\<lparr>fitted := Some 2\<rparr>)),
      predict =
        (\<lambda>m Xte. Inr (if cls m = ''LGBMClassifier'' then [Num 1, Num 0] else [Num 0, Num 1])),
      accuracy_score = (\<lambda>yt yp. Inr (if yp = yt then 1 else 0)),
      precision_score = (\<lambda>yt yp average. Inr (if yp = yt then 1 else 0)),
      recall_score = (\<lambda>yt yp average. Inr (if yp = yt then 1 else 0)),
      f1_score = (\<lambda>yt yp average. Inr (if yp = yt then 1 else 0)),
      has_predict_proba = (\<lambda>m. True),
      predict_proba =
        (\<lambda>m Xte. Inr (if cls m = ''LGBMClassifier'' then [[0.3, 0.7], [0.6, 0.4]]
                        else [[0.8, 0.2], [0.1, 0.9]])),
      roc_auc_score = (\<lambda>yt p. Inr (if p = [0.2, 0.9] then 1 else 0))\<rparr>"

text \<open>The same data with a numeric target of two values.\<close>
definition demo_numeric :: frame where
  "demo_numeric =
     [(''Age'', \<lparr>dtype = Floating, cells = map Num [5, 7, 9, 11, 6, 8, 10, 12, 4, 13]\<rparr>),
      (''Diagnosis'', \<lparr>dtype = Integer, cells = map Num [1, 0, 1, 0, 1, 0, 1, 0, 1, 0]\<rparr>)]"

text \<open>The variables the script ends with on the example.\<close>
definition demo_result :: "nat namespace" where
  "demo_result =
     \<lparr>X_all =
        [(''Age'', \<lparr>dtype = Floating, cells = map Num [5, 7, 9, 11, 6, 8, 10, 12, 4, 13]\<rparr>),
         (''Sex'', \<lparr>dtype = Integer, cells = map Num [0, 1, 1, 0, 0, 1, 0, 1, 1, 0]\<rparr>)],
      y_all = map Num [0, 1, 0, 1, 0, 1, 0, 1, 0, 1],
      X_train = replicate 8 [0, 0],
      X_test = replicate 2 [0, 0],
      y_train = map Num [0, 1, 0, 1, 0, 1, 0, 1],
      y_test = map Num [0, 1],
      scaler = 1,
      results =
        [''SVM'' \<mapsto>
           \<lparr>Accuracy = 1, Precision = 1, Recall = 1, F1_score = 1, AUC_ROC = Some 1\<rparr>,
         ''Random Forest'' \<mapsto>
           \<lparr>Accuracy = 1, Precision = 1, Recall = 1, F1_score = 1, AUC_ROC = Some 1\<rparr>,
         lightgbm_name \<mapsto>
           \<lparr>Accuracy = 0, Precision = 0, Recall = 0, F1_score = 0, AUC_ROC = Some 0\<rparr>]\<rparr>"

definition numeric_lib :: "nat lib" where
  "numeric_lib = demo_lib\<lparr>read_excel := \<lambda>c. Inr demo_numeric\<rparr>"

subsection \<open>Stages\<close>

text \<open>
  The stage a call belongs to: 0 the data directory, 1 load, 2 encode, 3 split (with the
  copies of its two frames), 4 scale, 5 grid search, 6 fit and evaluate, 7 save. The
  two files of unscaled features are written in lines 64 and 65, with the scaling;
  \<open>claimed_stage\<close> counts every file written as part of the last stage instead.
\<close>
fun stage :: "event \<Rightarrow> nat" where
  "stage (Makedirs p) = 0"
| "stage (Read_excel p) = 1"
| "stage Label_encode_target = 2"
| "stage (Label_encode_column c) = 2"
| "stage (Train_test_split X' y') = 3"
| "stage (Copy_frame a b) = 3"
| "stage Scaler_fit_transform = 4"
| "stage Scaler_transform = 4"
| "stage (To_csv p) =
     (if p = ''data/X_train_original.csv'' \<or> p = ''data/X_test_original.csv'' then 4 else 7)"
| "stage Grid_search_fit = 5"
| "stage (Fit a) = 6"
| "stage (Predict a) = 6"
| "stage (Print_error n) = 6"
| "stage (Dump p) = 7"

fun claimed_stage :: "event \<Rightarrow> nat" where
  "claimed_stage (To_csv p) = 7"
| "claimed_stage e = stage e"

text \<open>A scaler that empties the DataFrame it is given, to show what the copies are for.\<close>
definition overwriting_lib :: "nat lib" where
  "overwriting_lib =
     demo_lib\<lparr>scaler_fit_transform := \<lambda>df. (Inr (1, replicate 8 [0, 0]), []),
               scaler_transform := \<lambda>sc df. (Inr (replicate 2 [0, 0]), [])\<rparr>"

text \<open>Variants of the example: estimators without \<^verbatim>\<open>predict_proba\<close>; an SVM whose fit
  raises; and the objects as the comparison loop finds them.\<close>
definition no_proba_lib :: "nat lib" where
  "no_proba_lib = demo_lib\<lparr>has_predict_proba := \<lambda>m. False\<rparr>"

definition raising_lib :: "nat lib" where
  "raising_lib =
     demo_lib\<lparr>fit := \<lambda>m Xtr ytr. if cls m = ''SVC'' then (Some ''ValueError'', m)
                                else (None, m\<lparr>fitted := Some 2\<rparr>)\<rparr>"

definition loop_start :: "nat state" where
  "loop_start =
     (init demo_files)\<lparr>estimators := (\<lambda>a. demo_best)(svm_ref := svc, rf_ref := random_forest)\<rparr>"

text \<open>The runs of the handler of line 134.\<close>
fun is_print_error :: "event \<Rightarrow> bool" where
  "is_print_error (Print_error n) = True"
| "is_print_error e = False"

text \<open>The calls of \<^verbatim>\<open>fit\<close> on an estimator.\<close>
fun is_fit :: "event \<Rightarrow> bool" where
  "is_fit (Fit a) = True"
| "is_fit e = False"

section \<open>Symbolic execution\<close>

subsection \<open>Primitive steps\<close>

lemma ret_run [simp]: "ret a s = (Inr a, s)" by (simp add: ret_def)
lemma throw_run [simp]: "throw e s = (Inl e, s)" by (simp add: throw_def)
lemma emit_run [simp]: "emit ev s = (Inr (), s\<lparr>trace := trace s @ [ev]\<rparr>)" by (simp add: emit_def)
lemma get_files_run [simp]: "get_files s = (Inr (files s), s)" by (simp add: get_files_def)
lemma write_file_run [simp]: "write_file p c s = (Inr (), s\<lparr>files := (files s)(p \<mapsto> c)\<rparr>)" by (simp add: write_file_def)
lemma load_frame_run [simp]: "load_frame a s = (Inr (frames s a), s)" by (simp add: load_frame_def)
lemma store_frame_run [simp]: "store_frame a f s = (Inr (), s\<lparr>frames := (frames s)(a := f)\<rparr>)" by (simp add: store_frame_def)
lemma load_estimator_run [simp]: "load_estimator a s = (Inr (estimators s a), s)" by (simp add: load_estimator_def)
lemma store_estimator_run [simp]: "store_estimator a m s = (Inr (), s\<lparr>estimators := (estimators s)(a := m)\<rparr>)" by (simp add: store_estimator_def)
lemma lib_call_run [simp]:
  "lib_call r s = (case r of Inl e \<Rightarrow> (Inl (Library_exception e), s) | Inr a \<Rightarrow> (Inr a, s))"
  by (simp add: lib_call_def split: sum.splits)
lemma andthen_run [simp]: "andthen m f s = (case m s of (Inl e, s') \<Rightarrow> (Inl e, s') | (Inr a, s') \<Rightarrow> f a s')"
  by (simp add: andthen_def)
lemma try_except_run [simp]: "try_except m h s = (case m s of (Inl e, s') \<Rightarrow> h e s' | (Inr a, s') \<Rightarrow> (Inr a, s'))"
  by (simp add: try_except_def)

subsection \<open>The stages in closed form\<close>

lemma load_dataset_run:
  "load_dataset L s =
     (case files s file_path of
        None \<Rightarrow> (Inl (FileNotFoundError file_path), s\<lparr>trace := trace s @ [Makedirs ''data'']\<rparr>)
      | Some c \<Rightarrow>
          (case read_excel L c of
             Inl e \<Rightarrow> (Inl (Library_exception e),
                       s\<lparr>trace := trace s @ [Makedirs ''data'', Read_excel file_path]\<rparr>)
           | Inr dataset \<Rightarrow>
               (if target_col \<notin> set (columns dataset) then Inl (ValueError target_col) else Inr dataset,
                s\<lparr>trace := trace s @ [Makedirs ''data'', Read_excel file_path]\<rparr>)))"
  by (simp add: load_dataset_def split: option.splits sum.splits)

lemma split_data_run:
  "split_data L X y s =
     (case train_test_split L X y 0.2 42 y of
        Inl e \<Rightarrow> (Inl (Library_exception e), s\<lparr>trace := trace s @ [Train_test_split X y]\<rparr>)
      | Inr (Xtr, Xte, ytr, yte) \<Rightarrow>
          (Inr (ytr, yte),
           s\<lparr>frames := (frames s)(X_train_ref := Xtr, X_test_ref := Xte,
                                     X_train_original_ref := Xtr, X_test_original_ref := Xte),
             trace := trace s @ [Train_test_split X y,
                                 Copy_frame X_train_ref X_train_original_ref,
                                 Copy_frame X_test_ref X_test_original_ref]\<rparr>))"
  by (simp add: split_data_def copy_frame_def X_train_ref_def X_test_ref_def
        X_train_original_ref_def X_test_original_ref_def split: sum.splits)

lemma scale_run:
  "scale L s =
     (case scaler_fit_transform L (frames s X_train_ref) of
        (Inl e, f0) \<Rightarrow>
          (Inl (Library_exception e),
           s\<lparr>frames := (frames s)(X_train_ref := f0), trace := trace s @ [Scaler_fit_transform]\<rparr>)
      | (Inr (sc, Xtr), f0) \<Rightarrow>
          (case scaler_transform L sc (frames s X_test_ref) of
             (Inl e, f1) \<Rightarrow>
               (Inl (Library_exception e),
                s\<lparr>frames := (frames s)(X_train_ref := f0, X_test_ref := f1),
                  trace := trace s @ [Scaler_fit_transform, Scaler_transform]\<rparr>)
           | (Inr Xte, f1) \<Rightarrow>
               (Inr (sc, Xtr, Xte),
                s\<lparr>frames := (frames s)(X_train_ref := f0, X_test_ref := f1),
                  files := (files s)(''data/X_train_original.csv'' \<mapsto> Csv_frame (frames s X_train_original_ref),
                                     ''data/X_test_original.csv'' \<mapsto> Csv_frame (frames s X_test_original_ref)),
                  trace := trace s @ [Scaler_fit_transform, Scaler_transform,
                                      To_csv ''data/X_train_original.csv'',
                                      To_csv ''data/X_test_original.csv'']\<rparr>)))"
  by (simp add: scale_def call_on_frame_def to_csv_def X_train_ref_def X_test_ref_def
        X_train_original_ref_def X_test_original_ref_def split: sum.splits prod.splits)

lemma fit_estimator_run:
  "fit_estimator L a Xtr ytr s =
     (case fit L (estimators s a) Xtr ytr of
        (raised, m') \<Rightarrow>
          (case raised of None \<Rightarrow> Inr () | Some e \<Rightarrow> Inl (Library_exception e),
           s\<lparr>estimators := (estimators s)(a := m'), trace := trace s @ [Fit a]\<rparr>))"
  by (simp add: fit_estimator_def split: prod.splits option.splits)

lemma tune_run:
  "tune L Xtr ytr s =
     (case grid_search_fit L grid_search Xtr ytr of
        Inl e \<Rightarrow> (Inl (Library_exception e), s\<lparr>trace := trace s @ [Grid_search_fit]\<rparr>)
      | Inr (best_estimator, best_params) \<Rightarrow>
          (case fit L best_estimator Xtr ytr of
             (raised, m') \<Rightarrow>
               (case raised of None \<Rightarrow> Inr () | Some e \<Rightarrow> Inl (Library_exception e),
                s\<lparr>estimators := (estimators s)(best_model_ref := m'),
                  trace := trace s @ [Grid_search_fit, Fit best_model_ref]\<rparr>)))"
  by (simp add: tune_def fit_estimator_run split: sum.splits prod.splits option.splits)

lemma define_models_run:
  "define_models s =
     (Inr models, s\<lparr>estimators := (estimators s)(svm_ref := svc, rf_ref := random_forest)\<rparr>)"
  by (simp add: define_models_def)

lemma evaluate_run:
  "evaluate L Xtr ytr Xte yte a s =
     (case fit L (estimators s a) Xtr ytr of
        (Some e, m') \<Rightarrow>
          (Inl (Library_exception e),
           s\<lparr>estimators := (estimators s)(a := m'), trace := trace s @ [Fit a]\<rparr>)
      | (None, m') \<Rightarrow>
          (case score L m' Xte yte of
             Inl e \<Rightarrow> Inl (Library_exception e)
           | Inr r \<Rightarrow> Inr r,
           s\<lparr>estimators := (estimators s)(a := m'), trace := trace s @ [Fit a, Predict a]\<rparr>))"
  by (simp add: evaluate_def fit_estimator_run split: sum.splits prod.splits option.splits)

lemma save_run:
  "save X sc Xtr Xte ytr yte s =
     (Inr (),
      s\<lparr>files := (files s)(''data/X_train.csv'' \<mapsto> Csv_array (columns X) Xtr,
                           ''data/X_test.csv'' \<mapsto> Csv_array (columns X) Xte,
                           ''data/y_train.csv'' \<mapsto> Csv_labels ytr,
                           ''data/y_test.csv'' \<mapsto> Csv_labels yte,
                           ''data/best_model.pkl'' \<mapsto> Pickle_estimator (estimators s best_model_ref),
                           ''data/scaler.pkl'' \<mapsto> Pickle_scaler (Some sc)),
        trace := trace s @ [To_csv ''data/X_train.csv'', To_csv ''data/X_test.csv'',
                            To_csv ''data/y_train.csv'', To_csv ''data/y_test.csv'',
                            Dump ''data/best_model.pkl'', Dump ''data/scaler.pkl'']\<rparr>)"
  by (simp add: save_def csv_of_array_def csv_of_labels_def dump_estimator_def dump_scaler_def)


subsection \<open>The comparison loop\<close>

lemma iteration_run:
  "try_except (andthen (evaluate L Xtr ytr Xte yte a) (\<lambda>r. ret (res(name \<mapsto> r))))
              (\<lambda>e. andthen (emit (Print_error name)) (\<lambda>_. ret res)) s =
     (Inr (case attempt L Xtr ytr Xte yte (estimators s a) of Inl e \<Rightarrow> res | Inr r \<Rightarrow> res(name \<mapsto> r)),
      s\<lparr>estimators := (estimators s)(a := refit L Xtr ytr (estimators s a)),
        trace := trace s @ iteration_events L Xtr ytr Xte yte name a (estimators s a)\<rparr>)"
  by (simp add: evaluate_run attempt_def refit_def iteration_events_def
        split: prod.splits option.splits sum.splits)

lemma train_and_evaluate_run:
  "train_and_evaluate L Xtr ytr Xte yte ms res s =
     (Inr (loop_results L Xtr ytr Xte yte ms (estimators s) res),
      s\<lparr>estimators := loop_estimators L Xtr ytr ms (estimators s),
        trace := trace s @ loop_events L Xtr ytr Xte yte ms (estimators s)\<rparr>)"
proof (induction ms arbitrary: res s)
  case Nil
  show ?case by simp
next
  case (Cons p ms)
  obtain name a where p: "p = (name, a)" by (cases p)
  show ?case
    unfolding p train_and_evaluate.simps
    by (subst andthen_run) (simp only: iteration_run Cons.IH, simp)
qed


subsection \<open>Label encoding\<close>

lemma getitem_run:
  "getitem df c s = (case map_of df c of None \<Rightarrow> Inl (Library_exception ''KeyError'') | Some col \<Rightarrow> Inr col, s)"
  by (simp add: getitem_def split: option.splits)

lemma encode_columns_run:
  "\<exists>r es. encode_columns L cols X s = (r, s\<lparr>trace := trace s @ es\<rparr>) \<and>
          set es \<subseteq> Label_encode_column ` set cols \<and>
          (\<forall>e. r = Inl e \<longrightarrow> (\<exists>d. e = Library_exception d))"
proof (induction cols arbitrary: X s)
  case Nil
  show ?case by (intro exI [of _ "Inr X"] exI [of _ "[]"]) simp
next
  case (Cons col cols)
  show ?case
  proof (cases "map_of X col")
    case None
    then show ?thesis
      by (intro exI [of _ "Inl (Library_exception ''KeyError'')"] exI [of _ "[]"])
         (simp add: getitem_run)
  next
    case (Some old)
    show ?thesis
    proof (cases "label_encode L (cells old)")
      case (Inl d)
      with Some show ?thesis
        by (intro exI [of _ "Inl (Library_exception d)"] exI [of _ "[Label_encode_column col]"])
           (simp add: getitem_run)
    next
      case (Inr v)
      let ?X = "setitem X col \<lparr>dtype = Integer, cells = v\<rparr>"
      let ?s = "s\<lparr>trace := trace s @ [Label_encode_column col]\<rparr>"
      from Cons.IH [of ?X ?s] obtain r es where
        run: "encode_columns L cols ?X ?s = (r, ?s\<lparr>trace := trace ?s @ es\<rparr>)" and
        es: "set es \<subseteq> Label_encode_column ` set cols" and
        r: "\<forall>e. r = Inl e \<longrightarrow> (\<exists>d. e = Library_exception d)"
        by blast
      from Some Inr run es r show ?thesis
        by (intro exI [of _ r] exI [of _ "Label_encode_column col # es"])
           (auto simp add: getitem_run)
    qed
  qed
qed

lemma map_of_target:
  "target_col \<in> set (columns d) \<Longrightarrow> \<exists>ycol. map_of d target_col = Some ycol"
  by (cases "map_of d target_col") (auto simp: columns_def map_of_eq_None_iff)

lemma encode_run:
  assumes "map_of d target_col = Some ycol"
  shows "\<exists>r es. encode L d s = (r, s\<lparr>trace := trace s @ es\<rparr>) \<and>
           (Label_encode_target \<in> set es \<longleftrightarrow> target_needs_encoding ycol) \<and>
           set es \<subseteq> insert Label_encode_target (range Label_encode_column) \<and>
           (case r of
              Inl e \<Rightarrow> \<exists>d. e = Library_exception d
            | Inr (X', y') \<Rightarrow>
                (if target_needs_encoding ycol then label_encode L (cells ycol) = Inr y'
                 else y' = cells ycol))"
proof (cases "target_needs_encoding ycol")
  case False
  let ?X = "drop_columns d [target_col]"
  from encode_columns_run [of L "select_dtypes_object ?X" ?X s] obtain r es where
    run: "encode_columns L (select_dtypes_object ?X) ?X s = (r, s\<lparr>trace := trace s @ es\<rparr>)" and
    es: "set es \<subseteq> Label_encode_column ` set (select_dtypes_object ?X)" and
    r: "\<forall>e. r = Inl e \<longrightarrow> (\<exists>d. e = Library_exception d)"
    by blast
  let ?r = "case r of Inl e \<Rightarrow> Inl e | Inr X' \<Rightarrow> Inr (X', cells ycol)"
  from assms False run es r show ?thesis
    by (intro exI [of _ ?r] exI [of _ es])
       (auto simp add: encode_def getitem_run Let_def split: sum.splits)
next
  case True
  show ?thesis
  proof (cases "label_encode L (cells ycol)")
    case (Inl e)
    with assms True show ?thesis
      by (intro exI [of _ "Inl (Library_exception e)"] exI [of _ "[Label_encode_target]"])
         (simp add: encode_def getitem_run Let_def)
  next
    case (Inr y')
    let ?X = "drop_columns d [target_col]"
    let ?s = "s\<lparr>trace := trace s @ [Label_encode_target]\<rparr>"
    from encode_columns_run [of L "select_dtypes_object ?X" ?X ?s] obtain r es where
      run: "encode_columns L (select_dtypes_object ?X) ?X ?s = (r, ?s\<lparr>trace := trace ?s @ es\<rparr>)" and
      es: "set es \<subseteq> Label_encode_column ` set (select_dtypes_object ?X)" and
      r: "\<forall>e. r = Inl e \<longrightarrow> (\<exists>d. e = Library_exception d)"
      by blast
    let ?r = "case r of Inl e \<Rightarrow> Inl e | Inr X' \<Rightarrow> Inr (X', y')"
    from assms True Inr run es r show ?thesis
      by (intro exI [of _ ?r] exI [of _ "Label_encode_target # es"])
         (auto simp add: encode_def getitem_run Let_def split: sum.splits)
  qed
qed


subsection \<open>Every way a run can end\<close>

lemma init_simps [simp]:
  "files (init fs) = fs" "frames (init fs) = (\<lambda>_. [])" "trace (init fs) = []"
  "estimators (init fs) = (\<lambda>_. \<lparr>cls = [], params = [], fitted = None\<rparr>)"
  by (simp_all add: init_def)

lemma refs_distinct [simp]:
  "X_train_ref \<noteq> X_test_ref" "X_train_ref \<noteq> X_train_original_ref" "X_train_ref \<noteq> X_test_original_ref"
  "X_test_ref \<noteq> X_train_original_ref" "X_test_ref \<noteq> X_test_original_ref"
  "X_train_original_ref \<noteq> X_test_original_ref"
  "X_test_ref \<noteq> X_train_ref" "X_train_original_ref \<noteq> X_train_ref" "X_test_original_ref \<noteq> X_train_ref"
  "X_train_original_ref \<noteq> X_test_ref" "X_test_original_ref \<noteq> X_test_ref"
  "X_test_original_ref \<noteq> X_train_original_ref"
  "best_model_ref \<noteq> svm_ref" "best_model_ref \<noteq> rf_ref" "svm_ref \<noteq> rf_ref"
  "svm_ref \<noteq> best_model_ref" "rf_ref \<noteq> best_model_ref" "rf_ref \<noteq> svm_ref"
  by (simp_all add: X_train_ref_def X_test_ref_def X_train_original_ref_def X_test_original_ref_def
        best_model_ref_def svm_ref_def rf_ref_def)


declare train_and_evaluate.simps [simp del] encode_columns.simps [simp del]

lemmas run_simps =
  outcome_def final_def run_def script_def load_dataset_run split_data_run scale_run tune_run
  define_models_run train_and_evaluate_run save_run

lemma loop_results_other:
  "n \<notin> fst ` set ms \<Longrightarrow> loop_results L Xtr ytr Xte yte ms E res n = res n"
  by (induction ms arbitrary: E res) (auto split: sum.splits)

lemma loop_results_lookup:
  "distinct (map fst ms) \<Longrightarrow> distinct (map snd ms) \<Longrightarrow> (n, a) \<in> set ms \<Longrightarrow>
   loop_results L Xtr ytr Xte yte ms E res n =
     (case attempt L Xtr ytr Xte yte (E a) of Inl e \<Rightarrow> res n | Inr r \<Rightarrow> Some r)"
proof (induction ms arbitrary: E res)
  case Nil
  then show ?case by simp
next
  case (Cons p ms)
  obtain n0 a0 where p: "p = (n0, a0)" by (cases p)
  show ?case
  proof (cases "(n, a) = (n0, a0)")
    case True
    with Cons.prems p have "n \<notin> fst ` set ms" by auto
    with True p show ?thesis
      by (simp add: loop_results_other split: sum.splits)
  next
    case False
    with Cons.prems p have in_ms: "(n, a) \<in> set ms" by auto
    with Cons.prems p have ne: "n \<noteq> n0" "a \<noteq> a0" by force+
    from Cons.prems p have d: "distinct (map fst ms)" "distinct (map snd ms)" by auto
    show ?thesis
      unfolding p loop_results.simps
      by (subst Cons.IH [OF d in_ms]) (use ne in \<open>auto split: sum.splits\<close>)
  qed
qed

lemma loop_estimators_other:
  "a \<notin> snd ` set ms \<Longrightarrow> loop_estimators L Xtr ytr ms E a = E a"
  by (induction ms arbitrary: E) auto

lemma loop_estimators_lookup:
  "distinct (map snd ms) \<Longrightarrow> (n, a) \<in> set ms \<Longrightarrow>
   loop_estimators L Xtr ytr ms E a = refit L Xtr ytr (E a)"
proof (induction ms arbitrary: E)
  case Nil
  then show ?case by simp
next
  case (Cons p ms)
  obtain n0 a0 where p: "p = (n0, a0)" by (cases p)
  show ?case
  proof (cases "a = a0")
    case True
    with Cons.prems p have "a \<notin> snd ` set ms" by auto
    with True p show ?thesis by (simp add: loop_estimators_other)
  next
    case False
    with Cons.prems p have "(n, a) \<in> set ms" "distinct (map snd ms)" by auto
    with Cons.IH False p show ?thesis by simp
  qed
qed

lemma names_distinct [simp]:
  "''SVM'' \<noteq> lightgbm_name" "''Random Forest'' \<noteq> lightgbm_name"
  "lightgbm_name \<noteq> ''SVM''" "lightgbm_name \<noteq> ''Random Forest''"
  by (simp_all add: lightgbm_name_def)

lemma models_distinct: "distinct (map fst models)" "distinct (map snd models)"
  by (simp_all add: models_def)

lemma loop_events_models:
  "loop_events L Xtr ytr Xte yte models E =
     iteration_events L Xtr ytr Xte yte ''SVM'' svm_ref (E svm_ref) @
     iteration_events L Xtr ytr Xte yte ''Random Forest'' rf_ref (E rf_ref) @
     iteration_events L Xtr ytr Xte yte lightgbm_name best_model_ref (E best_model_ref)"
  by (simp add: models_def)

lemma run_cases [case_names no_file read_failed no_target encode_failed split_failed
    fit_transform_failed transform_failed grid_search_failed first_fit_failed completed]:
  obtains
    (no_file)
      "fs file_path = None"
      "outcome L fs = Inl (FileNotFoundError file_path)"
      "trace (final L fs) = [Makedirs ''data'']"
      "files (final L fs) = fs"
  | (read_failed) c e where
      "fs file_path = Some c"
      "read_excel L c = Inl e"
      "outcome L fs = Inl (Library_exception e)"
      "trace (final L fs) = [Makedirs ''data'', Read_excel file_path]"
      "files (final L fs) = fs"
  | (no_target) c d where
      "fs file_path = Some c"
      "read_excel L c = Inr d"
      "target_col \<notin> set (columns d)"
      "outcome L fs = Inl (ValueError target_col)"
      "trace (final L fs) = [Makedirs ''data'', Read_excel file_path]"
      "files (final L fs) = fs"
  | (encode_failed) c d ycol es e where
      "fs file_path = Some c"
      "read_excel L c = Inr d"
      "target_col \<in> set (columns d)" "map_of d target_col = Some ycol"
      "Label_encode_target \<in> set es \<longleftrightarrow> target_needs_encoding ycol"
      "set es \<subseteq> insert Label_encode_target (range Label_encode_column)"
      "outcome L fs = Inl (Library_exception e)"
      "trace (final L fs) = [Makedirs ''data'', Read_excel file_path] @ es"
      "files (final L fs) = fs"
  | (split_failed) c d ycol es X' y' e where
      "fs file_path = Some c"
      "read_excel L c = Inr d"
      "target_col \<in> set (columns d)" "map_of d target_col = Some ycol"
      "Label_encode_target \<in> set es \<longleftrightarrow> target_needs_encoding ycol"
      "set es \<subseteq> insert Label_encode_target (range Label_encode_column)"
      "if target_needs_encoding ycol then label_encode L (cells ycol) = Inr y' else y' = cells ycol"
      "train_test_split L X' y' 0.2 42 y' = Inl e"
      "outcome L fs = Inl (Library_exception e)"
      "trace (final L fs) = [Makedirs ''data'', Read_excel file_path] @ es @ [Train_test_split X' y']"
      "files (final L fs) = fs"
  | (fit_transform_failed) c d ycol es X' y' Xtr_f Xte_f ytr yte e Xtr_o where
      "fs file_path = Some c"
      "read_excel L c = Inr d"
      "target_col \<in> set (columns d)" "map_of d target_col = Some ycol"
      "Label_encode_target \<in> set es \<longleftrightarrow> target_needs_encoding ycol"
      "set es \<subseteq> insert Label_encode_target (range Label_encode_column)"
      "if target_needs_encoding ycol then label_encode L (cells ycol) = Inr y' else y' = cells ycol"
      "train_test_split L X' y' 0.2 42 y' = Inr (Xtr_f, Xte_f, ytr, yte)"
      "scaler_fit_transform L Xtr_f = (Inl e, Xtr_o)"
      "outcome L fs = Inl (Library_exception e)"
      "trace (final L fs) = [Makedirs ''data'', Read_excel file_path] @ es @ [Train_test_split X' y', Copy_frame X_train_ref X_train_original_ref,
            Copy_frame X_test_ref X_test_original_ref] @ [Scaler_fit_transform]"
      "files (final L fs) = fs"
      "frames (final L fs) X_train_original_ref = Xtr_f"
      "frames (final L fs) X_test_original_ref = Xte_f"
  | (transform_failed) c d ycol es X' y' Xtr_f Xte_f ytr yte sc Xtr Xtr_o e Xte_o where
      "fs file_path = Some c"
      "read_excel L c = Inr d"
      "target_col \<in> set (columns d)" "map_of d target_col = Some ycol"
      "Label_encode_target \<in> set es \<longleftrightarrow> target_needs_encoding ycol"
      "set es \<subseteq> insert Label_encode_target (range Label_encode_column)"
      "if target_needs_encoding ycol then label_encode L (cells ycol) = Inr y' else y' = cells ycol"
      "train_test_split L X' y' 0.2 42 y' = Inr (Xtr_f, Xte_f, ytr, yte)"
      "scaler_fit_transform L Xtr_f = (Inr (sc, Xtr), Xtr_o)"
      "scaler_transform L sc Xte_f = (Inl e, Xte_o)"
      "outcome L fs = Inl (Library_exception e)"
      "trace (final L fs) = [Makedirs ''data'', Read_excel file_path] @ es @ [Train_test_split X' y', Copy_frame X_train_ref X_train_original_ref,
            Copy_frame X_test_ref X_test_original_ref] @ [Scaler_fit_transform, Scaler_transform]"
      "files (final L fs) = fs"
      "frames (final L fs) X_train_original_ref = Xtr_f"
      "frames (final L fs) X_test_original_ref = Xte_f"
  | (grid_search_failed) c d ycol es X' y' Xtr_f Xte_f ytr yte sc Xtr Xtr_o Xte Xte_o e where
      "fs file_path = Some c"
      "read_excel L c = Inr d"
      "target_col \<in> set (columns d)" "map_of d target_col = Some ycol"
      "Label_encode_target \<in> set es \<longleftrightarrow> target_needs_encoding ycol"
      "set es \<subseteq> insert Label_encode_target (range Label_encode_column)"
      "if target_needs_encoding ycol then label_encode L (cells ycol) = Inr y' else y' = cells ycol"
      "train_test_split L X' y' 0.2 42 y' = Inr (Xtr_f, Xte_f, ytr, yte)"
      "scaler_fit_transform L Xtr_f = (Inr (sc, Xtr), Xtr_o)"
      "scaler_transform L sc Xte_f = (Inr Xte, Xte_o)"
      "grid_search_fit L grid_search Xtr ytr = Inl e"
      "outcome L fs = Inl (Library_exception e)"
      "trace (final L fs) = [Makedirs ''data'', Read_excel file_path] @ es @ [Train_test_split X' y', Copy_frame X_train_ref X_train_original_ref,
            Copy_frame X_test_ref X_test_original_ref] @ [Scaler_fit_transform, Scaler_transform, To_csv ''data/X_train_original.csv'',
            To_csv ''data/X_test_original.csv''] @ [Grid_search_fit]"
      "files (final L fs) =
         fs(''data/X_train_original.csv'' \<mapsto> Csv_frame Xtr_f,
            ''data/X_test_original.csv'' \<mapsto> Csv_frame Xte_f)"
      "frames (final L fs) X_train_original_ref = Xtr_f"
      "frames (final L fs) X_test_original_ref = Xte_f"
  | (first_fit_failed) c d ycol es X' y' Xtr_f Xte_f ytr yte sc Xtr Xtr_o Xte Xte_o be bp e best where
      "fs file_path = Some c"
      "read_excel L c = Inr d"
      "target_col \<in> set (columns d)" "map_of d target_col = Some ycol"
      "Label_encode_target \<in> set es \<longleftrightarrow> target_needs_encoding ycol"
      "set es \<subseteq> insert Label_encode_target (range Label_encode_column)"
      "if target_needs_encoding ycol then label_encode L (cells ycol) = Inr y' else y' = cells ycol"
      "train_test_split L X' y' 0.2 42 y' = Inr (Xtr_f, Xte_f, ytr, yte)"
      "scaler_fit_transform L Xtr_f = (Inr (sc, Xtr), Xtr_o)"
      "scaler_transform L sc Xte_f = (Inr Xte, Xte_o)"
      "grid_search_fit L grid_search Xtr ytr = Inr (be, bp)"
      "fit L be Xtr ytr = (Some e, best)"
      "outcome L fs = Inl (Library_exception e)"
      "trace (final L fs) = [Makedirs ''data'', Read_excel file_path] @ es @ [Train_test_split X' y', Copy_frame X_train_ref X_train_original_ref,
            Copy_frame X_test_ref X_test_original_ref] @ [Scaler_fit_transform, Scaler_transform, To_csv ''data/X_train_original.csv'',
            To_csv ''data/X_test_original.csv''] @ [Grid_search_fit, Fit best_model_ref]"
      "files (final L fs) =
         fs(''data/X_train_original.csv'' \<mapsto> Csv_frame Xtr_f,
            ''data/X_test_original.csv'' \<mapsto> Csv_frame Xte_f)"
      "frames (final L fs) X_train_original_ref = Xtr_f"
      "frames (final L fs) X_test_original_ref = Xte_f"
  | (completed) c d ycol es X' y' Xtr_f Xte_f ytr yte sc Xtr Xtr_o Xte Xte_o be bp best res where
      "fs file_path = Some c"
      "read_excel L c = Inr d"
      "target_col \<in> set (columns d)" "map_of d target_col = Some ycol"
      "Label_encode_target \<in> set es \<longleftrightarrow> target_needs_encoding ycol"
      "set es \<subseteq> insert Label_encode_target (range Label_encode_column)"
      "if target_needs_encoding ycol then label_encode L (cells ycol) = Inr y' else y' = cells ycol"
      "train_test_split L X' y' 0.2 42 y' = Inr (Xtr_f, Xte_f, ytr, yte)"
      "scaler_fit_transform L Xtr_f = (Inr (sc, Xtr), Xtr_o)"
      "scaler_transform L sc Xte_f = (Inr Xte, Xte_o)"
      "grid_search_fit L grid_search Xtr ytr = Inr (be, bp)"
      "fit L be Xtr ytr = (None, best)"
      "outcome L fs =
         Inr \<lparr>X_all = X', y_all = y', X_train = Xtr, X_test = Xte, y_train = ytr, y_test = yte,
              scaler = sc, results = res\<rparr>"
      "res ''SVM'' = (case attempt L Xtr ytr Xte yte svc of Inl e \<Rightarrow> None | Inr r \<Rightarrow> Some r)"
      "res ''Random Forest'' =
         (case attempt L Xtr ytr Xte yte random_forest of Inl e \<Rightarrow> None | Inr r \<Rightarrow> Some r)"
      "res lightgbm_name = (case attempt L Xtr ytr Xte yte best of Inl e \<Rightarrow> None | Inr r \<Rightarrow> Some r)"
      "dom res \<subseteq> {''SVM'', ''Random Forest'', lightgbm_name}"
      "trace (final L fs) =
         [Makedirs ''data'', Read_excel file_path] @ es @ [Train_test_split X' y', Copy_frame X_train_ref X_train_original_ref,
            Copy_frame X_test_ref X_test_original_ref] @ [Scaler_fit_transform, Scaler_transform, To_csv ''data/X_train_original.csv'',
            To_csv ''data/X_test_original.csv''] @ [Grid_search_fit, Fit best_model_ref] @
         iteration_events L Xtr ytr Xte yte ''SVM'' svm_ref svc @
         iteration_events L Xtr ytr Xte yte ''Random Forest'' rf_ref random_forest @
         iteration_events L Xtr ytr Xte yte lightgbm_name best_model_ref best @
         [To_csv ''data/X_train.csv'', To_csv ''data/X_test.csv'', To_csv ''data/y_train.csv'',
          To_csv ''data/y_test.csv'', Dump ''data/best_model.pkl'', Dump ''data/scaler.pkl'']"
      "files (final L fs) =
         fs(''data/X_train_original.csv'' \<mapsto> Csv_frame Xtr_f,
            ''data/X_test_original.csv'' \<mapsto> Csv_frame Xte_f,
            ''data/X_train.csv'' \<mapsto> Csv_array (columns X') Xtr,
            ''data/X_test.csv'' \<mapsto> Csv_array (columns X') Xte,
            ''data/y_train.csv'' \<mapsto> Csv_labels ytr,
            ''data/y_test.csv'' \<mapsto> Csv_labels yte,
            ''data/best_model.pkl'' \<mapsto> Pickle_estimator (refit L Xtr ytr best),
            ''data/scaler.pkl'' \<mapsto> Pickle_scaler (Some sc))"
      "frames (final L fs) X_train_original_ref = Xtr_f"
      "frames (final L fs) X_test_original_ref = Xte_f"
      "estimators (final L fs) svm_ref = refit L Xtr ytr svc"
      "estimators (final L fs) rf_ref = refit L Xtr ytr random_forest"
      "estimators (final L fs) best_model_ref = refit L Xtr ytr best"
proof (cases "fs file_path")
  case None
  then show thesis
    by (intro no_file) (simp_all add: run_simps)
next
  case fpath: (Some c)
  show thesis
  proof (cases "read_excel L c")
    case (Inl e)
    with fpath show thesis
      by (intro read_failed
        [where c = c and e = e]) (simp_all add: run_simps)
  next
    case read: (Inr d)
    show thesis
    proof (cases "target_col \<in> set (columns d)")
      case False
      with fpath read show thesis
        by (intro no_target
        [where c = c and d = d]) (simp_all add: run_simps)
    next
      case col: True
      then obtain ycol where ycol: "map_of d target_col = Some ycol"
        using map_of_target by blast
      let ?s1 = "(init fs)\<lparr>trace := [Makedirs ''data'', Read_excel file_path]\<rparr>"
      from encode_run [OF ycol, of L ?s1] obtain r es where
        enc: "encode L d ?s1 = (r, (init fs)\<lparr>trace := Makedirs ''data'' # Read_excel file_path # es\<rparr>)" and
        es: "Label_encode_target \<in> set es \<longleftrightarrow> target_needs_encoding ycol"
            "set es \<subseteq> insert Label_encode_target (range Label_encode_column)" and
        r: "case r of
              Inl e \<Rightarrow> \<exists>d. e = Library_exception d
            | Inr (X', y') \<Rightarrow>
                (if target_needs_encoding ycol then label_encode L (cells ycol) = Inr y'
                 else y' = cells ycol)"
        by auto
      show thesis
      proof (cases r)
        case (Inl x)
        with r obtain e where x: "x = Library_exception e" by auto
        from fpath read col ycol es enc Inl x show thesis
          by (intro encode_failed
        [where c = c and d = d and ycol = ycol and es = es and e = e]) (simp_all add: run_simps)
      next
        case (Inr p)
        obtain X' y' where p: "p = (X', y')" by (cases p)
        from r Inr p have y: "if target_needs_encoding ycol
            then label_encode L (cells ycol) = Inr y' else y' = cells ycol"
          by simp
        from enc Inr p have enc': "encode L d ?s1 =
            (Inr (X', y'), (init fs)\<lparr>trace := Makedirs ''data'' # Read_excel file_path # es\<rparr>)"
          by simp
        note pre = fpath read col enc'
        show thesis
        proof (cases "train_test_split L X' y' 0.2 42 y'")
          case (Inl e)
          show thesis
            by (rule split_failed
        [where c = c and d = d and ycol = ycol and es = es and X' = X' and y' = y' and e = e])
               (use pre ycol es y Inl in \<open>simp_all add: run_simps\<close>)
        next
          case (Inr q)
          obtain Xtr_f Xte_f ytr yte where q: "q = (Xtr_f, Xte_f, ytr, yte)" by (cases q)
          note split = Inr [unfolded q]
          obtain ra Xtr_o where ft: "scaler_fit_transform L Xtr_f = (ra, Xtr_o)"
            by (cases "scaler_fit_transform L Xtr_f")
          show thesis
          proof (cases ra)
            case (Inl e)
            show thesis
              by (rule fit_transform_failed
        [where c = c and d = d and ycol = ycol and es = es and X' = X' and y' = y' and Xtr_f = Xtr_f and Xte_f = Xte_f and ytr = ytr and yte = yte and e = e and Xtr_o = Xtr_o])
                 (use pre ycol es y split ft Inl in \<open>simp_all add: run_simps\<close>)
          next
            case (Inr u)
            obtain sc Xtr where u: "u = (sc, Xtr)" by (cases u)
            note ft' = ft [unfolded Inr u]
            obtain rb Xte_o where tr: "scaler_transform L sc Xte_f = (rb, Xte_o)"
              by (cases "scaler_transform L sc Xte_f")
            show thesis
            proof (cases rb)
              case (Inl e)
              show thesis
                by (rule transform_failed
        [where c = c and d = d and ycol = ycol and es = es and X' = X' and y' = y' and Xtr_f = Xtr_f and Xte_f = Xte_f and ytr = ytr and yte = yte and sc = sc and Xtr = Xtr and Xtr_o = Xtr_o and e = e and Xte_o = Xte_o])
                   (use pre ycol es y split ft' tr Inl in \<open>simp_all add: run_simps\<close>)
            next
              case (Inr Xte)
              note tr' = tr [unfolded Inr]
              show thesis
              proof (cases "grid_search_fit L grid_search Xtr ytr")
                case (Inl e)
                show thesis
                  by (rule grid_search_failed
        [where c = c and d = d and ycol = ycol and es = es and X' = X' and y' = y' and Xtr_f = Xtr_f and Xte_f = Xte_f and ytr = ytr and yte = yte and sc = sc and Xtr = Xtr and Xtr_o = Xtr_o and Xte = Xte and Xte_o = Xte_o and e = e])
                     (use pre ycol es y split ft' tr' Inl in \<open>simp_all add: run_simps\<close>)
              next
                case (Inr w)
                obtain be bp where w: "w = (be, bp)" by (cases w)
                note gs = Inr [unfolded w]
                obtain raised best where fit: "fit L be Xtr ytr = (raised, best)"
                  by (cases "fit L be Xtr ytr")
                show thesis
                proof (cases raised)
                  case (Some e)
                  show thesis
                    by (rule first_fit_failed
        [where c = c and d = d and ycol = ycol and es = es and X' = X' and y' = y' and Xtr_f = Xtr_f and Xte_f = Xte_f and ytr = ytr and yte = yte and sc = sc and Xtr = Xtr and Xtr_o = Xtr_o and Xte = Xte and Xte_o = Xte_o and be = be and bp = bp and e = e and best = best])
                       (use pre ycol es y split ft' tr' gs fit Some in \<open>simp_all add: run_simps\<close>)
                next
                  case None
                  let ?E = "(\<lambda>_. \<lparr>cls = [], params = [], fitted = None\<rparr>)
                              (best_model_ref := best, svm_ref := svc, rf_ref := random_forest)"
                  let ?res = "loop_results L Xtr ytr Xte yte models ?E Map.empty"
                  have in_models: "(''SVM'', svm_ref) \<in> set models"
                    "(''Random Forest'', rf_ref) \<in> set models"
                    "(lightgbm_name, best_model_ref) \<in> set models"
                    by (simp_all add: models_def)
                  have dom: "dom ?res \<subseteq> {''SVM'', ''Random Forest'', lightgbm_name}"
                  proof
                    fix n assume "n \<in> dom ?res"
                    then have "n \<in> fst ` set models"
                      using loop_results_other [of n models L Xtr ytr Xte yte ?E Map.empty]
                      by (cases "n \<in> fst ` set models") auto
                    then show "n \<in> {''SVM'', ''Random Forest'', lightgbm_name}"
                      by (auto simp: models_def)
                  qed
                  show thesis
                    by (rule completed
        [where c = c and d = d and ycol = ycol and es = es and X' = X' and y' = y' and Xtr_f = Xtr_f and Xte_f = Xte_f and ytr = ytr and yte = yte and sc = sc and Xtr = Xtr and Xtr_o = Xtr_o and Xte = Xte and Xte_o = Xte_o and be = be and bp = bp and best = best and res = "?res"])
                       (use pre ycol es y split ft' tr' gs fit None dom in
                         \<open>simp_all add: run_simps loop_events_models
                            loop_results_lookup [OF models_distinct in_models(1)]
                            loop_results_lookup [OF models_distinct in_models(2)]
                            loop_results_lookup [OF models_distinct in_models(3)]
                            loop_estimators_lookup [OF models_distinct(2) in_models(1)]
                            loop_estimators_lookup [OF models_distinct(2) in_models(2)]
                            loop_estimators_lookup [OF models_distinct(2) in_models(3)]\<close>)
                qed
              qed
            qed
          qed
        qed
      qed
    qed
  qed
qed

section \<open>The claims\<close>

subsection \<open>Facts shared by the claims\<close>

lemma iteration_events_mem:
  "e \<in> set (iteration_events L Xtr ytr Xte yte n a m) \<Longrightarrow>
   e = Fit a \<or> e = Predict a \<or> e = Print_error n"
  by (auto simp: iteration_events_def split: prod.splits option.splits sum.splits)

lemma map_of_columns: "map_of d t = Some col \<Longrightarrow> t \<in> set (columns d)"
  by (force simp: columns_def dest: map_of_SomeD)

lemma encode_events_mem:
  "set es \<subseteq> insert Label_encode_target (range Label_encode_column) \<Longrightarrow> e \<in> set es \<Longrightarrow>
   e = Label_encode_target \<or> (\<exists>col. e = Label_encode_column col)"
  by auto

subsection \<open>The example, evaluated\<close>

lemmas demo_simps =
  demo_lib_def demo_files_def demo_dataset_def demo_best_def first_rows_def last_rows_def
  encode_def getitem_run encode_columns.simps select_dtypes_object_def drop_columns_def
  setitem_def columns_def target_needs_encoding_def unique_def target_col_def
  loop_events_models models_def attempt_def refit_def iteration_events_def score_def
  auc_of_def with_result_def column1_def svc_def random_forest_def Let_def

lemma demo_outcome: "outcome demo_lib demo_files = Inr demo_result"
  by (simp add: run_simps demo_simps demo_result_def)

lemma demo_trace:
  "trace (final demo_lib demo_files) =
     [Makedirs ''data'', Read_excel file_path, Label_encode_target, Label_encode_column ''Sex'',
      Train_test_split (X_all demo_result) (y_all demo_result),
      Copy_frame X_train_ref X_train_original_ref, Copy_frame X_test_ref X_test_original_ref,
      Scaler_fit_transform, Scaler_transform,
      To_csv ''data/X_train_original.csv'', To_csv ''data/X_test_original.csv'',
      Grid_search_fit, Fit best_model_ref,
      Fit svm_ref, Predict svm_ref, Fit rf_ref, Predict rf_ref,
      Fit best_model_ref, Predict best_model_ref,
      To_csv ''data/X_train.csv'', To_csv ''data/X_test.csv'', To_csv ''data/y_train.csv'',
      To_csv ''data/y_test.csv'', Dump ''data/best_model.pkl'', Dump ''data/scaler.pkl'']"
  by (simp add: run_simps demo_simps demo_result_def)

lemma numeric_outcome: "\<exists>v. outcome numeric_lib demo_files = Inr v"
  by (simp add: run_simps demo_simps numeric_lib_def demo_numeric_def)

subsection \<open>The two guards\<close>

text \<open>
  Claim C6 opens by saying that the script's only branching is the existence checks and
  the exception guard. It is not: line 40 branches on the dtype and the number of
  unique values of the target. The rest of the claim holds. If no file exists at the
  input path, the script raises FileNotFoundError and has made no call but
  \<^verbatim>\<open>os.makedirs\<close>: the file is not read. If the file is read and has no column
  \<^verbatim>\<open>Diagnosis\<close>, the script raises ValueError right after reading: nothing is
  encoded, split or trained. If the file exists and the data set read from it has the
  column, the script ends with neither of its two own errors, whatever the libraries
  do.
\<close>
theorem guards:
  "(fs file_path = None \<longrightarrow>
      outcome L fs = Inl (FileNotFoundError file_path) \<and>
      trace (final L fs) = [Makedirs ''data'']) \<and>
   (\<forall>c d. fs file_path = Some c \<and> read_excel L c = Inr d \<longrightarrow>
      (target_col \<notin> set (columns d) \<longrightarrow>
         outcome L fs = Inl (ValueError target_col) \<and>
         trace (final L fs) = [Makedirs ''data'', Read_excel file_path]) \<and>
      (target_col \<in> set (columns d) \<longrightarrow>
         (\<forall>p. outcome L fs \<noteq> Inl (FileNotFoundError p)) \<and>
         (\<forall>p. outcome L fs \<noteq> Inl (ValueError p))))"
  by (cases rule: run_cases [of fs L]) simp_all

text \<open>The three cases on the example: no file at all, a file without the target
  column, and the example data set.\<close>
lemma demo_target: "target_col \<in> set (columns demo_dataset)"
  by (simp add: demo_dataset_def columns_def target_col_def)

theorem guards_witness:
  "outcome demo_lib Map.empty = Inl (FileNotFoundError file_path) \<and>
   trace (final demo_lib Map.empty) = [Makedirs ''data''] \<and>
   outcome (demo_lib\<lparr>read_excel := \<lambda>c. Inr (drop_columns demo_dataset [target_col])\<rparr>) demo_files =
     Inl (ValueError target_col) \<and>
   trace (final (demo_lib\<lparr>read_excel := \<lambda>c. Inr (drop_columns demo_dataset [target_col])\<rparr>) demo_files) =
     [Makedirs ''data'', Read_excel file_path] \<and>
   demo_files file_path = Some (Bytes ''cleaned_data'') \<and>
   read_excel demo_lib (Bytes ''cleaned_data'') = Inr demo_dataset \<and>
   target_col \<in> set (columns demo_dataset) \<and>
   outcome demo_lib demo_files \<noteq> Inl (FileNotFoundError file_path) \<and>
   outcome demo_lib demo_files \<noteq> Inl (ValueError target_col)"
proof -
  let ?L = "demo_lib\<lparr>read_excel := \<lambda>c. Inr (drop_columns demo_dataset [target_col])\<rparr>"
  have f: "demo_files file_path = Some (Bytes ''cleaned_data'')"
    by (simp add: demo_files_def)
  have r: "read_excel demo_lib (Bytes ''cleaned_data'') = Inr demo_dataset"
    by (simp add: demo_lib_def)
  have r': "read_excel ?L (Bytes ''cleaned_data'') = Inr (drop_columns demo_dataset [target_col])"
    by simp
  have n: "target_col \<notin> set (columns (drop_columns demo_dataset [target_col]))"
    by (auto simp add: columns_def drop_columns_def)
  from guards [of Map.empty demo_lib] guards [of demo_files ?L] guards [of demo_files demo_lib]
    f r r' n demo_target
  show ?thesis by simp
qed

text \<open>
  Two runs on the same file system: in both the file exists, the data set read has the
  target column, the run completes and the handler of the loop never runs. One calls
  the LabelEncoder on the target and the other does not, so the script has a branch
  that is neither an existence check nor the exception guard.
\<close>
lemma numeric_path:
  "Label_encode_target \<notin> set (trace (final numeric_lib demo_files)) \<and>
   filter is_print_error (trace (final numeric_lib demo_files)) = []"
  by (simp add: run_simps demo_simps numeric_lib_def demo_numeric_def)

theorem only_branching_counterexample:
  "demo_files file_path = Some (Bytes ''cleaned_data'') \<and>
   read_excel demo_lib (Bytes ''cleaned_data'') = Inr demo_dataset \<and>
   target_col \<in> set (columns demo_dataset) \<and>
   read_excel numeric_lib (Bytes ''cleaned_data'') = Inr demo_numeric \<and>
   target_col \<in> set (columns demo_numeric) \<and>
   \<not> isl (outcome demo_lib demo_files) \<and>
   \<not> isl (outcome numeric_lib demo_files) \<and>
   filter is_print_error (trace (final demo_lib demo_files)) = [] \<and>
   filter is_print_error (trace (final numeric_lib demo_files)) = [] \<and>
   Label_encode_target \<in> set (trace (final demo_lib demo_files)) \<and>
   Label_encode_target \<notin> set (trace (final numeric_lib demo_files))"
proof -
  have "demo_files file_path = Some (Bytes ''cleaned_data'')"
    by (simp add: demo_files_def)
  moreover have "read_excel demo_lib (Bytes ''cleaned_data'') = Inr demo_dataset"
    by (simp add: demo_lib_def)
  moreover have "read_excel numeric_lib (Bytes ''cleaned_data'') = Inr demo_numeric"
    by (simp add: numeric_lib_def)
  moreover have "target_col \<in> set (columns demo_numeric)"
    by (simp add: demo_numeric_def columns_def target_col_def)
  moreover have "\<not> isl (outcome demo_lib demo_files)"
    by (simp add: demo_outcome)
  moreover from numeric_outcome have "\<not> isl (outcome numeric_lib demo_files)"
    by auto
  moreover have "filter is_print_error (trace (final demo_lib demo_files)) = []"
    "Label_encode_target \<in> set (trace (final demo_lib demo_files))"
    by (simp_all add: demo_trace)
  ultimately show ?thesis
    using demo_target numeric_path by simp
qed

subsection \<open>When the target is label-encoded\<close>

text \<open>
  Claim C10. For a run that has read a data set with the target column: LabelEncoder is
  applied to the target if and only if the column's dtype is object or it has more than
  two unique values; the label vector handed to \<^verbatim>\<open>train_test_split\<close> is the encoder's
  output in that case and the column's own values otherwise (so a numeric target with
  two values goes into the split, and from there into training, as it was read); and a
  run that completes has made that call with its final \<^verbatim>\<open>X\<close> and \<^verbatim>\<open>y\<close>.
\<close>
theorem target_encoding:
  assumes "fs file_path = Some c" and "read_excel L c = Inr d"
    and "map_of d target_col = Some ycol"
  shows "(Label_encode_target \<in> set (trace (final L fs)) \<longleftrightarrow>
            dtype ycol = Object \<or> 2 < length (unique (cells ycol))) \<and>
         (\<forall>X' y'. Train_test_split X' y' \<in> set (trace (final L fs)) \<longrightarrow>
            (if dtype ycol = Object \<or> 2 < length (unique (cells ycol))
             then label_encode L (cells ycol) = Inr y'
             else y' = cells ycol)) \<and>
         (\<forall>v. outcome L fs = Inr v \<longrightarrow>
            Train_test_split (X_all v) (y_all v) \<in> set (trace (final L fs)))"
proof (cases rule: run_cases [of fs L])
  case no_file
  with assms show ?thesis by simp
next
  case (read_failed c e)
  with assms show ?thesis by simp
next
  case (no_target c d)
  with assms map_of_columns [OF assms(3)] show ?thesis by simp
next
  case (encode_failed c d ycol es e)
  with assms show ?thesis
    by (auto simp: target_needs_encoding_def dest: encode_events_mem)
next
  case (split_failed c d ycol es X' y' e)
  with assms show ?thesis
    by (auto simp: target_needs_encoding_def dest: encode_events_mem)
next
  case (fit_transform_failed c d ycol es X' y' Xtr_f Xte_f ytr yte e Xtr_o)
  with assms show ?thesis
    by (auto simp: target_needs_encoding_def dest: encode_events_mem)
next
  case (transform_failed c d ycol es X' y' Xtr_f Xte_f ytr yte sc Xtr Xtr_o e Xte_o)
  with assms show ?thesis
    by (auto simp: target_needs_encoding_def dest: encode_events_mem)
next
  case (grid_search_failed c d ycol es X' y' Xtr_f Xte_f ytr yte sc Xtr Xtr_o Xte Xte_o e)
  with assms show ?thesis
    by (auto simp: target_needs_encoding_def dest: encode_events_mem)
next
  case (first_fit_failed c d ycol es X' y' Xtr_f Xte_f ytr yte sc Xtr Xtr_o Xte Xte_o be bp e best)
  with assms show ?thesis
    by (auto simp: target_needs_encoding_def dest: encode_events_mem)
next
  case (completed c d ycol es X' y' Xtr_f Xte_f ytr yte sc Xtr Xtr_o Xte Xte_o be bp best res)
  with assms show ?thesis
    by (auto simp: target_needs_encoding_def dest: encode_events_mem iteration_events_mem)
qed


text \<open>On the example the target is a column of strings and is encoded; with the
  numeric target of two values it is not, and reaches the split unchanged.\<close>
theorem target_encoding_witness:
  "(\<exists>v. outcome demo_lib demo_files = Inr v \<and>
        Label_encode_target \<in> set (trace (final demo_lib demo_files)) \<and>
        Train_test_split (X_all v) (y_all v) \<in> set (trace (final demo_lib demo_files)) \<and>
        y_all v = map Num [0, 1, 0, 1, 0, 1, 0, 1, 0, 1]) \<and>
   (\<exists>v. outcome numeric_lib demo_files = Inr v \<and>
        Label_encode_target \<notin> set (trace (final numeric_lib demo_files)) \<and>
        Train_test_split (X_all v) (y_all v) \<in> set (trace (final numeric_lib demo_files)) \<and>
        y_all v = map Num [1, 0, 1, 0, 1, 0, 1, 0, 1, 0])"
proof
  let ?y = "\<lparr>dtype = Object,
             cells = map Str [''appendicitis'', ''no appendicitis'', ''appendicitis'',
                              ''no appendicitis'', ''appendicitis'', ''no appendicitis'',
                              ''appendicitis'', ''no appendicitis'', ''appendicitis'',
                              ''no appendicitis'']\<rparr>"
  have f: "demo_files file_path = Some (Bytes ''cleaned_data'')"
    by (simp add: demo_files_def)
  have r: "read_excel demo_lib (Bytes ''cleaned_data'') = Inr demo_dataset"
    by (simp add: demo_lib_def)
  have m: "map_of demo_dataset target_col = Some ?y"
    by (simp add: demo_dataset_def target_col_def)
  have e: "label_encode demo_lib (cells ?y) = Inr (map Num [0, 1, 0, 1, 0, 1, 0, 1, 0, 1])"
    by (simp add: demo_lib_def)
  from target_encoding [where fs = demo_files and L = demo_lib, OF f r m] demo_outcome e
  show "\<exists>v. outcome demo_lib demo_files = Inr v \<and>
        Label_encode_target \<in> set (trace (final demo_lib demo_files)) \<and>
        Train_test_split (X_all v) (y_all v) \<in> set (trace (final demo_lib demo_files)) \<and>
        y_all v = map Num [0, 1, 0, 1, 0, 1, 0, 1, 0, 1]"
    by auto
next
  let ?y = "\<lparr>dtype = Integer, cells = map Num [1, 0, 1, 0, 1, 0, 1, 0, 1, 0]\<rparr>"
  have f: "demo_files file_path = Some (Bytes ''cleaned_data'')"
    by (simp add: demo_files_def)
  have r: "read_excel numeric_lib (Bytes ''cleaned_data'') = Inr demo_numeric"
    by (simp add: numeric_lib_def)
  have m: "map_of demo_numeric target_col = Some ?y"
    by (simp add: demo_numeric_def target_col_def)
  have u: "\<not> (dtype ?y = Object \<or> 2 < length (unique (cells ?y)))"
    by (simp add: unique_def)
  from numeric_outcome obtain v where v: "outcome numeric_lib demo_files = Inr v" ..
  from target_encoding [where fs = demo_files and L = numeric_lib, OF f r m] u v
  have "Label_encode_target \<notin> set (trace (final numeric_lib demo_files)) \<and>
        Train_test_split (X_all v) (y_all v) \<in> set (trace (final numeric_lib demo_files)) \<and>
        y_all v = cells ?y"
    by auto
  with v show "\<exists>v. outcome numeric_lib demo_files = Inr v \<and>
        Label_encode_target \<notin> set (trace (final numeric_lib demo_files)) \<and>
        Train_test_split (X_all v) (y_all v) \<in> set (trace (final numeric_lib demo_files)) \<and>
        y_all v = map Num [1, 0, 1, 0, 1, 0, 1, 0, 1, 0]"
    by auto
qed

subsection \<open>The files of unscaled features\<close>

text \<open>
  Claim C9. Whenever a run has written \<^verbatim>\<open>data/X_train_original.csv\<close> or
  \<^verbatim>\<open>data/X_test_original.csv\<close>: the two copies were taken right after the split and
  before any call of the scaler; at the end of the run the copies still hold the two
  frames the split returned, whatever the scaler did to the frames it was given; and
  the two files hold exactly those frames.
\<close>
theorem originals_unscaled:
  assumes "To_csv ''data/X_train_original.csv'' \<in> set (trace (final L fs)) \<or>
           To_csv ''data/X_test_original.csv'' \<in> set (trace (final L fs))"
  shows "\<exists>X' y' Xtr_f Xte_f ytr yte pre post.
           train_test_split L X' y' 0.2 42 y' = Inr (Xtr_f, Xte_f, ytr, yte) \<and>
           trace (final L fs) =
             pre @ [Train_test_split X' y',
                    Copy_frame X_train_ref X_train_original_ref,
                    Copy_frame X_test_ref X_test_original_ref,
                    Scaler_fit_transform, Scaler_transform,
                    To_csv ''data/X_train_original.csv'',
                    To_csv ''data/X_test_original.csv''] @ post \<and>
           Scaler_fit_transform \<notin> set pre \<and> Scaler_transform \<notin> set pre \<and>
           frames (final L fs) X_train_original_ref = Xtr_f \<and>
           frames (final L fs) X_test_original_ref = Xte_f \<and>
           files (final L fs) ''data/X_train_original.csv'' = Some (Csv_frame Xtr_f) \<and>
           files (final L fs) ''data/X_test_original.csv'' = Some (Csv_frame Xte_f)"
proof (cases rule: run_cases [of fs L])
  case no_file
  with assms show ?thesis by simp
next
  case (read_failed c e)
  with assms show ?thesis by simp
next
  case (no_target c d)
  with assms show ?thesis by simp
next
  case (encode_failed c d ycol es e)
  from assms \<open>trace (final L fs) = _\<close> \<open>set es \<subseteq> _\<close> have False by auto
  then show ?thesis ..
next
  case (split_failed c d ycol es X' y' e)
  from assms \<open>trace (final L fs) = _\<close> \<open>set es \<subseteq> _\<close> have False by auto
  then show ?thesis ..
next
  case (fit_transform_failed c d ycol es X' y' Xtr_f Xte_f ytr yte e Xtr_o)
  from assms \<open>trace (final L fs) = _\<close> \<open>set es \<subseteq> _\<close> have False by auto
  then show ?thesis ..
next
  case (transform_failed c d ycol es X' y' Xtr_f Xte_f ytr yte sc Xtr Xtr_o e Xte_o)
  from assms \<open>trace (final L fs) = _\<close> \<open>set es \<subseteq> _\<close> have False by auto
  then show ?thesis ..
next
  case (grid_search_failed c d ycol es X' y' Xtr_f Xte_f ytr yte sc Xtr Xtr_o Xte Xte_o e)
  let ?pre = "[Makedirs ''data'', Read_excel file_path] @ es"
  from \<open>set es \<subseteq> _\<close> have pre: "Scaler_fit_transform \<notin> set ?pre" "Scaler_transform \<notin> set ?pre"
    by auto
  have tr: "trace (final L fs) =
      ?pre @ [Train_test_split X' y',
              Copy_frame X_train_ref X_train_original_ref,
              Copy_frame X_test_ref X_test_original_ref,
              Scaler_fit_transform, Scaler_transform,
              To_csv ''data/X_train_original.csv'',
              To_csv ''data/X_test_original.csv''] @ [Grid_search_fit]"
    using \<open>trace (final L fs) = _\<close> by simp
  from \<open>files (final L fs) = _\<close>
  have fl: "files (final L fs) ''data/X_train_original.csv'' = Some (Csv_frame Xtr_f)"
    "files (final L fs) ''data/X_test_original.csv'' = Some (Csv_frame Xte_f)"
    by simp_all
  from \<open>train_test_split L X' y' _ _ y' = _\<close> tr pre fl
    \<open>frames (final L fs) X_train_original_ref = Xtr_f\<close>
    \<open>frames (final L fs) X_test_original_ref = Xte_f\<close>
  show ?thesis by blast
next
  case (first_fit_failed c d ycol es X' y' Xtr_f Xte_f ytr yte sc Xtr Xtr_o Xte Xte_o be bp e best)
  let ?pre = "[Makedirs ''data'', Read_excel file_path] @ es"
  from \<open>set es \<subseteq> _\<close> have pre: "Scaler_fit_transform \<notin> set ?pre" "Scaler_transform \<notin> set ?pre"
    by auto
  have tr: "trace (final L fs) =
      ?pre @ [Train_test_split X' y',
              Copy_frame X_train_ref X_train_original_ref,
              Copy_frame X_test_ref X_test_original_ref,
              Scaler_fit_transform, Scaler_transform,
              To_csv ''data/X_train_original.csv'',
              To_csv ''data/X_test_original.csv''] @ [Grid_search_fit, Fit best_model_ref]"
    using \<open>trace (final L fs) = _\<close> by simp
  from \<open>files (final L fs) = _\<close>
  have fl: "files (final L fs) ''data/X_train_original.csv'' = Some (Csv_frame Xtr_f)"
    "files (final L fs) ''data/X_test_original.csv'' = Some (Csv_frame Xte_f)"
    by simp_all
  from \<open>train_test_split L X' y' _ _ y' = _\<close> tr pre fl
    \<open>frames (final L fs) X_train_original_ref = Xtr_f\<close>
    \<open>frames (final L fs) X_test_original_ref = Xte_f\<close>
  show ?thesis by blast
next
  case (completed c d ycol es X' y' Xtr_f Xte_f ytr yte sc Xtr Xtr_o Xte Xte_o be bp best res)
  let ?pre = "[Makedirs ''data'', Read_excel file_path] @ es"
  from \<open>set es \<subseteq> _\<close> have pre: "Scaler_fit_transform \<notin> set ?pre" "Scaler_transform \<notin> set ?pre"
    by auto
  have tr: "trace (final L fs) =
      ?pre @ [Train_test_split X' y',
              Copy_frame X_train_ref X_train_original_ref,
              Copy_frame X_test_ref X_test_original_ref,
              Scaler_fit_transform, Scaler_transform,
              To_csv ''data/X_train_original.csv'',
              To_csv ''data/X_test_original.csv''] @ ([Grid_search_fit, Fit best_model_ref] @
         iteration_events L Xtr ytr Xte yte ''SVM'' svm_ref svc @
         iteration_events L Xtr ytr Xte yte ''Random Forest'' rf_ref random_forest @
         iteration_events L Xtr ytr Xte yte lightgbm_name best_model_ref best @
         [To_csv ''data/X_train.csv'', To_csv ''data/X_test.csv'', To_csv ''data/y_train.csv'',
          To_csv ''data/y_test.csv'', Dump ''data/best_model.pkl'', Dump ''data/scaler.pkl''])"
    using \<open>trace (final L fs) = _\<close> by simp
  from \<open>files (final L fs) = _\<close>
  have fl: "files (final L fs) ''data/X_train_original.csv'' = Some (Csv_frame Xtr_f)"
    "files (final L fs) ''data/X_test_original.csv'' = Some (Csv_frame Xte_f)"
    by simp_all
  from \<open>train_test_split L X' y' _ _ y' = _\<close> tr pre fl
    \<open>frames (final L fs) X_train_original_ref = Xtr_f\<close>
    \<open>frames (final L fs) X_test_original_ref = Xte_f\<close>
  show ?thesis by blast
qed

text \<open>With a scaler that empties its argument, the training frame is empty after
  scaling, and the copy and the file still hold the first eight rows.\<close>
lemma overwriting_trace:
  "To_csv ''data/X_train_original.csv'' \<in> set (trace (final overwriting_lib demo_files))"
  by (simp add: run_simps demo_simps overwriting_lib_def)

lemma overwriting_frames:
  "frames (final overwriting_lib demo_files) X_train_ref = []"
  by (simp add: run_simps demo_simps overwriting_lib_def)

theorem originals_unscaled_witness:
  "To_csv ''data/X_train_original.csv'' \<in> set (trace (final overwriting_lib demo_files)) \<and>
   frames (final overwriting_lib demo_files) X_train_ref = [] \<and>
   (\<exists>X' y' Xtr_f Xte_f ytr yte.
      train_test_split overwriting_lib X' y' 0.2 42 y' = Inr (Xtr_f, Xte_f, ytr, yte) \<and>
      Xtr_f = first_rows 8 X' \<and>
      frames (final overwriting_lib demo_files) X_train_original_ref = Xtr_f \<and>
      files (final overwriting_lib demo_files) ''data/X_train_original.csv'' = Some (Csv_frame Xtr_f))"
proof -
  from originals_unscaled [of overwriting_lib demo_files] overwriting_trace
  obtain X' y' Xtr_f Xte_f ytr yte where
    s: "train_test_split overwriting_lib X' y' 0.2 42 y' = Inr (Xtr_f, Xte_f, ytr, yte)" and
    f: "frames (final overwriting_lib demo_files) X_train_original_ref = Xtr_f"
       "files (final overwriting_lib demo_files) ''data/X_train_original.csv'' = Some (Csv_frame Xtr_f)"
    by auto
  from s have "Xtr_f = first_rows 8 X'"
    by (simp add: overwriting_lib_def demo_lib_def)
  with s f overwriting_trace overwriting_frames show ?thesis
    by (intro conjI exI [of _ X'] exI [of _ y'] exI [of _ Xtr_f] exI [of _ Xte_f]
          exI [of _ ytr] exI [of _ yte]) simp_all
qed

subsection \<open>The order of the stages\<close>

lemma sorted_map_const: "(\<And>x. x \<in> set xs \<Longrightarrow> f x = k) \<Longrightarrow> sorted (map f xs)"
  by (induction xs) auto

lemma stage_encode_events:
  "set es \<subseteq> insert Label_encode_target (range Label_encode_column) \<Longrightarrow> e \<in> set es \<Longrightarrow> stage e = 2"
  by auto

lemma stage_iteration_events:
  "e \<in> set (iteration_events L Xtr ytr Xte yte n a m) \<Longrightarrow> stage e = 6"
  by (auto dest: iteration_events_mem)

lemma sorted_encode_events:
  "set es \<subseteq> insert Label_encode_target (range Label_encode_column) \<Longrightarrow> sorted (map stage es)"
  by (rule sorted_map_const [where k = 2]) (rule stage_encode_events)

lemma sorted_iteration_events: "sorted (map stage (iteration_events L Xtr ytr Xte yte n a m))"
  by (rule sorted_map_const [where k = 6]) (rule stage_iteration_events)

lemmas stage_order =
  sorted_append sorted_encode_events sorted_iteration_events stage_encode_events
  stage_iteration_events

text \<open>
  Claim C4 says that all files are saved in a last stage, after the models are fitted
  and evaluated. The two files of unscaled features are not: lines 64 and 65 write them
  before the grid search. What holds, for every run, ended by an exception or not: the
  calls follow the order load, encode, split, scale (to which the writing of these two
  files belongs), grid search, fit and evaluate, save (the scaled splits, the labels,
  the model and the scaler), and no call of a stage comes before a call of an earlier
  stage; in a run that completes, each of load, split, scale, grid search, fit and
  evaluate, and save occurs.
\<close>
theorem stages_in_order:
  "sorted (map stage (trace (final L fs))) \<and>
   (\<forall>v. outcome L fs = Inr v \<longrightarrow> {1, 3, 4, 5, 6, 7} \<subseteq> stage ` set (trace (final L fs)))"
proof (cases rule: run_cases [of fs L])
  case no_file
  then show ?thesis by simp
next
  case (read_failed c e)
  then show ?thesis by simp
next
  case (no_target c d)
  then show ?thesis by simp
next
  case (encode_failed c d ycol es e)
  from \<open>set es \<subseteq> _\<close> have "sorted (map stage ([Makedirs ''data'', Read_excel file_path] @ es))"
    by (simp add: stage_order)
  with \<open>trace (final L fs) = _\<close> \<open>outcome L fs = _\<close> show ?thesis by simp
next
  case (split_failed c d ycol es X' y' e)
  from \<open>set es \<subseteq> _\<close>
  have "sorted (map stage ([Makedirs ''data'', Read_excel file_path] @ es @ [Train_test_split X' y']))"
    by (simp add: stage_order)
  with \<open>trace (final L fs) = _\<close> \<open>outcome L fs = _\<close> show ?thesis by simp
next
  case (fit_transform_failed c d ycol es X' y' Xtr_f Xte_f ytr yte e Xtr_o)
  from \<open>set es \<subseteq> _\<close> \<open>trace (final L fs) = _\<close>
  have "sorted (map stage (trace (final L fs)))"
    by (simp add: stage_order)
  with \<open>outcome L fs = _\<close> show ?thesis by simp
next
  case (transform_failed c d ycol es X' y' Xtr_f Xte_f ytr yte sc Xtr Xtr_o e Xte_o)
  from \<open>set es \<subseteq> _\<close> \<open>trace (final L fs) = _\<close>
  have "sorted (map stage (trace (final L fs)))"
    by (simp add: stage_order)
  with \<open>outcome L fs = _\<close> show ?thesis by simp
next
  case (grid_search_failed c d ycol es X' y' Xtr_f Xte_f ytr yte sc Xtr Xtr_o Xte Xte_o e)
  from \<open>set es \<subseteq> _\<close> \<open>trace (final L fs) = _\<close>
  have "sorted (map stage (trace (final L fs)))"
    by (simp add: stage_order)
  with \<open>outcome L fs = _\<close> show ?thesis by simp
next
  case (first_fit_failed c d ycol es X' y' Xtr_f Xte_f ytr yte sc Xtr Xtr_o Xte Xte_o be bp e best)
  from \<open>set es \<subseteq> _\<close> \<open>trace (final L fs) = _\<close>
  have "sorted (map stage (trace (final L fs)))"
    by (simp add: stage_order)
  with \<open>outcome L fs = _\<close> show ?thesis by simp
next
  case (completed c d ycol es X' y' Xtr_f Xte_f ytr yte sc Xtr Xtr_o Xte Xte_o be bp best res)
  from \<open>set es \<subseteq> _\<close> \<open>trace (final L fs) = _\<close>
  have s: "sorted (map stage (trace (final L fs)))"
    by (auto simp add: stage_order)
  have "Read_excel file_path \<in> set (trace (final L fs))"
    "Train_test_split X' y' \<in> set (trace (final L fs))"
    "Scaler_fit_transform \<in> set (trace (final L fs))"
    "Grid_search_fit \<in> set (trace (final L fs))"
    "Fit best_model_ref \<in> set (trace (final L fs))"
    "Dump ''data/best_model.pkl'' \<in> set (trace (final L fs))"
    using \<open>trace (final L fs) = _\<close> by simp_all
  then have "stage (Read_excel file_path) \<in> stage ` set (trace (final L fs))"
    "stage (Train_test_split X' y') \<in> stage ` set (trace (final L fs))"
    "stage Scaler_fit_transform \<in> stage ` set (trace (final L fs))"
    "stage Grid_search_fit \<in> stage ` set (trace (final L fs))"
    "stage (Fit best_model_ref) \<in> stage ` set (trace (final L fs))"
    "stage (Dump ''data/best_model.pkl'') \<in> stage ` set (trace (final L fs))"
    by (blast intro: imageI)+
  then have "{1, 3, 4, 5, 6, 7} \<subseteq> stage ` set (trace (final L fs))"
    by simp
  with s show ?thesis by simp
qed

text \<open>The example run completes and goes through the stages in order.\<close>
theorem stages_in_order_witness:
  "outcome demo_lib demo_files = Inr demo_result \<and>
   sorted (map stage (trace (final demo_lib demo_files))) \<and>
   {1, 3, 4, 5, 6, 7} \<subseteq> stage ` set (trace (final demo_lib demo_files))"
  using stages_in_order [of demo_lib demo_files] demo_outcome by simp

text \<open>
  With every written file counted as part of the last stage, as the claim has it, the
  calls of the example run are not in order: \<^verbatim>\<open>data/X_train_original.csv\<close> is written
  before the grid search starts.
\<close>
theorem saving_last_counterexample:
  "\<not> sorted (map claimed_stage (trace (final demo_lib demo_files)))"
  by (simp add: demo_trace)

subsection \<open>What is saved\<close>

lemma demo_final_files:
  "files (final demo_lib demo_files) ''data/best_model.pkl'' =
     Some (Pickle_estimator (demo_best\<lparr>fitted := Some 2\<rparr>))"
  by (simp add: run_simps demo_simps)

text \<open>
  Claim C1 says that the model written to \<^verbatim>\<open>data/best_model.pkl\<close> is the best of the
  compared classifiers. The script never selects among them: line 154 dumps the object
  \<^verbatim>\<open>best_model\<close>, the best estimator of the LightGBM grid search. What holds for a run
  that completes: the file holds that object, in the state its fit in the comparison
  loop left it (the grid search returned it, line 90 fitted it, the loop fitted it
  again through the dictionary), whichever model scored best; \<^verbatim>\<open>data/scaler.pkl\<close>
  holds the scaler fitted on the training frame; the two files of unscaled features
  hold the frames the split returned; and the four remaining CSV files hold the scaled
  training and test arrays, under the column labels of \<^verbatim>\<open>X\<close>, and the two label vectors.
\<close>
theorem saved_objects:
  assumes "outcome L fs = Inr v"
  shows "files (final L fs) ''data/best_model.pkl'' =
           Some (Pickle_estimator (estimators (final L fs) best_model_ref)) \<and>
         (\<exists>be bp best.
            grid_search_fit L grid_search (X_train v) (y_train v) = Inr (be, bp) \<and>
            fit L be (X_train v) (y_train v) = (None, best) \<and>
            estimators (final L fs) best_model_ref = refit L (X_train v) (y_train v) best) \<and>
         (\<exists>Xtr_f Xte_f Xtr_o Xte_o.
            train_test_split L (X_all v) (y_all v) 0.2 42 (y_all v) =
              Inr (Xtr_f, Xte_f, y_train v, y_test v) \<and>
            scaler_fit_transform L Xtr_f = (Inr (scaler v, X_train v), Xtr_o) \<and>
            scaler_transform L (scaler v) Xte_f = (Inr (X_test v), Xte_o) \<and>
            files (final L fs) ''data/X_train_original.csv'' = Some (Csv_frame Xtr_f) \<and>
            files (final L fs) ''data/X_test_original.csv'' = Some (Csv_frame Xte_f)) \<and>
         files (final L fs) ''data/scaler.pkl'' = Some (Pickle_scaler (Some (scaler v))) \<and>
         files (final L fs) ''data/X_train.csv'' =
           Some (Csv_array (columns (X_all v)) (X_train v)) \<and>
         files (final L fs) ''data/X_test.csv'' =
           Some (Csv_array (columns (X_all v)) (X_test v)) \<and>
         files (final L fs) ''data/y_train.csv'' = Some (Csv_labels (y_train v)) \<and>
         files (final L fs) ''data/y_test.csv'' = Some (Csv_labels (y_test v))"
proof (cases rule: run_cases [of fs L])
  case (completed c d ycol es X' y' Xtr_f Xte_f ytr yte sc Xtr Xtr_o Xte Xte_o be bp best res)
  from assms \<open>outcome L fs = Inr \<lparr>X_all = _, y_all = _, X_train = _, X_test = _, y_train = _,
      y_test = _, scaler = _, results = _\<rparr>\<close>
  have v: "v = \<lparr>X_all = X', y_all = y', X_train = Xtr, X_test = Xte, y_train = ytr,
                 y_test = yte, scaler = sc, results = res\<rparr>"
    by simp
  have fl: "files (final L fs) ''data/best_model.pkl'' =
              Some (Pickle_estimator (estimators (final L fs) best_model_ref))"
    "files (final L fs) ''data/X_train_original.csv'' = Some (Csv_frame Xtr_f)"
    "files (final L fs) ''data/X_test_original.csv'' = Some (Csv_frame Xte_f)"
    "files (final L fs) ''data/scaler.pkl'' = Some (Pickle_scaler (Some sc))"
    "files (final L fs) ''data/X_train.csv'' = Some (Csv_array (columns X') Xtr)"
    "files (final L fs) ''data/X_test.csv'' = Some (Csv_array (columns X') Xte)"
    "files (final L fs) ''data/y_train.csv'' = Some (Csv_labels ytr)"
    "files (final L fs) ''data/y_test.csv'' = Some (Csv_labels yte)"
    using \<open>files (final L fs) = _\<close> \<open>estimators (final L fs) best_model_ref = _\<close>
    by simp_all
  have tuned: "\<exists>be bp best.
            grid_search_fit L grid_search Xtr ytr = Inr (be, bp) \<and>
            fit L be Xtr ytr = (None, best) \<and>
            estimators (final L fs) best_model_ref = refit L Xtr ytr best"
    using \<open>grid_search_fit L grid_search Xtr ytr = _\<close> \<open>fit L be Xtr ytr = _\<close>
      \<open>estimators (final L fs) best_model_ref = _\<close>
    by blast
  have splits: "\<exists>Xtr_f Xte_f Xtr_o Xte_o.
            train_test_split L X' y' 0.2 42 y' = Inr (Xtr_f, Xte_f, ytr, yte) \<and>
            scaler_fit_transform L Xtr_f = (Inr (sc, Xtr), Xtr_o) \<and>
            scaler_transform L sc Xte_f = (Inr Xte, Xte_o) \<and>
            files (final L fs) ''data/X_train_original.csv'' = Some (Csv_frame Xtr_f) \<and>
            files (final L fs) ''data/X_test_original.csv'' = Some (Csv_frame Xte_f)"
    using \<open>train_test_split L X' y' _ _ y' = _\<close> \<open>scaler_fit_transform L Xtr_f = _\<close>
      \<open>scaler_transform L sc Xte_f = _\<close> fl(2,3)
    by blast
  from fl tuned splits show ?thesis
    unfolding v by simp
qed (use assms in simp_all)

text \<open>On the example.\<close>
theorem saved_objects_witness:
  "outcome demo_lib demo_files = Inr demo_result \<and>
   files (final demo_lib demo_files) ''data/best_model.pkl'' =
     Some (Pickle_estimator (estimators (final demo_lib demo_files) best_model_ref)) \<and>
   files (final demo_lib demo_files) ''data/scaler.pkl'' = Some (Pickle_scaler (Some 1)) \<and>
   files (final demo_lib demo_files) ''data/y_test.csv'' = Some (Csv_labels (map Num [0, 1]))"
  using saved_objects [OF demo_outcome] demo_outcome by (simp add: demo_result_def)

text \<open>
  On the example the SVM has accuracy, precision, recall, F1 and AUC-ROC 1, the tuned
  LightGBM model has 0 on all five, and the file holds the LightGBM model.
\<close>
theorem saved_is_best_counterexample:
  "outcome demo_lib demo_files = Inr demo_result \<and>
   results demo_result ''SVM'' =
     Some \<lparr>Accuracy = 1, Precision = 1, Recall = 1, F1_score = 1, AUC_ROC = Some 1\<rparr> \<and>
   results demo_result lightgbm_name =
     Some \<lparr>Accuracy = 0, Precision = 0, Recall = 0, F1_score = 0, AUC_ROC = Some 0\<rparr> \<and>
   files (final demo_lib demo_files) ''data/best_model.pkl'' =
     Some (Pickle_estimator (demo_best\<lparr>fitted := Some 2\<rparr>)) \<and>
   cls (demo_best\<lparr>fitted := Some 2\<rparr>) = ''LGBMClassifier''"
  by (simp add: demo_outcome demo_final_files demo_result_def demo_best_def)

subsection \<open>The metrics of an evaluated model\<close>

lemma attempt_Inr:
  assumes "attempt L Xtr ytr Xte yte m = Inr r"
  shows "fit L m Xtr ytr = (None, refit L Xtr ytr m)"
    and "score L (refit L Xtr ytr m) Xte yte = Inr r"
  using assms by (auto simp: attempt_def refit_def split: prod.splits option.splits)

lemma with_result_Inr:
  "with_result x f = Inr b \<longleftrightarrow> (\<exists>a. x = Inr a \<and> f a = Inr b)"
  by (cases x) (simp_all add: with_result_def)

lemma auc_of_Inr:
  assumes "auc_of L m Xte yte = Inr a"
  shows "if has_predict_proba L m
         then \<exists>P auc. predict_proba L m Xte = Inr P \<and> list_all (\<lambda>row. 1 < length row) P \<and>
                roc_auc_score L yte (map (\<lambda>row. row ! 1) P) = Inr auc \<and> a = Some auc
         else a = None"
  using assms
  by (auto simp: auc_of_def with_result_Inr column1_def split: if_splits option.splits)

lemma score_Inr:
  assumes "score L m Xte yte = Inr r"
  shows "\<exists>y_pred. predict L m Xte = Inr y_pred \<and>
           accuracy_score L yte y_pred = Inr (Accuracy r) \<and>
           precision_score L yte y_pred ''weighted'' = Inr (Precision r) \<and>
           recall_score L yte y_pred ''weighted'' = Inr (Recall r) \<and>
           f1_score L yte y_pred ''weighted'' = Inr (F1_score r) \<and>
           auc_of L m Xte yte = Inr (AUC_ROC r)"
  using assms by (auto simp: score_def with_result_Inr)

lemma in_models:
  "(n, a) \<in> set models \<longleftrightarrow>
     (n = ''SVM'' \<and> a = svm_ref) \<or> (n = ''Random Forest'' \<and> a = rf_ref) \<or>
     (n = lightgbm_name \<and> a = best_model_ref)"
  by (auto simp: models_def)

lemma results_scored:
  assumes "outcome L fs = Inr v" and "(n, a) \<in> set models" and "results v n = Some r"
  shows "score L (estimators (final L fs) a) (X_test v) (y_test v) = Inr r"
proof (cases rule: run_cases [of fs L])
  case (completed c d ycol es X' y' Xtr_f Xte_f ytr yte sc Xtr Xtr_o Xte Xte_o be bp best res)
  from assms(1) \<open>outcome L fs = Inr \<lparr>X_all = _, y_all = _, X_train = _, X_test = _, y_train = _,
      y_test = _, scaler = _, results = _\<rparr>\<close>
  have v: "v = \<lparr>X_all = X', y_all = y', X_train = Xtr, X_test = Xte, y_train = ytr,
                 y_test = yte, scaler = sc, results = res\<rparr>"
    by simp
  from assms(3) v have r: "res n = Some r" by simp
  from assms(2) consider "n = ''SVM''" "a = svm_ref" | "n = ''Random Forest''" "a = rf_ref"
    | "n = lightgbm_name" "a = best_model_ref"
    by (auto simp: in_models)
  then have "score L (estimators (final L fs) a) Xte yte = Inr r"
  proof cases
    case 1
    with r \<open>res ''SVM'' = _\<close> have "attempt L Xtr ytr Xte yte svc = Inr r"
      by (simp split: sum.splits)
    from attempt_Inr(2) [OF this] 1 \<open>estimators (final L fs) svm_ref = _\<close> show ?thesis by simp
  next
    case 2
    with r \<open>res ''Random Forest'' = _\<close> have "attempt L Xtr ytr Xte yte random_forest = Inr r"
      by (simp split: sum.splits)
    from attempt_Inr(2) [OF this] 2 \<open>estimators (final L fs) rf_ref = _\<close> show ?thesis by simp
  next
    case 3
    with r \<open>res lightgbm_name = _\<close> have "attempt L Xtr ytr Xte yte best = Inr r"
      by (simp split: sum.splits)
    from attempt_Inr(2) [OF this] 3 \<open>estimators (final L fs) best_model_ref = _\<close> show ?thesis
      by simp
  qed
  then show ?thesis unfolding v by simp
qed (use assms in simp_all)

text \<open>
  Claim C5. In a run that completes, for every model that has an entry in the results:
  if the fitted model has \<^verbatim>\<open>predict_proba\<close>, the AUC-ROC entry is what
  \<^verbatim>\<open>roc_auc_score\<close> returns for the test labels and column 1 of the model's
  \<^verbatim>\<open>predict_proba\<close> on the test features (every row of which has that column); if
  it has not, the entry is None.
\<close>
theorem auc_roc:
  assumes "outcome L fs = Inr v" and "(n, a) \<in> set models" and "results v n = Some r"
  shows "if has_predict_proba L (estimators (final L fs) a)
         then \<exists>P auc.
                predict_proba L (estimators (final L fs) a) (X_test v) = Inr P \<and>
                list_all (\<lambda>row. 1 < length row) P \<and>
                roc_auc_score L (y_test v) (map (\<lambda>row. row ! 1) P) = Inr auc \<and>
                AUC_ROC r = Some auc
         else AUC_ROC r = None"
proof -
  from results_scored [OF assms]
  have "score L (estimators (final L fs) a) (X_test v) (y_test v) = Inr r" .
  from score_Inr [OF this]
  have "auc_of L (estimators (final L fs) a) (X_test v) (y_test v) = Inr (AUC_ROC r)"
    by blast
  from auc_of_Inr [OF this] show ?thesis .
qed


text \<open>On the example the SVM has \<^verbatim>\<open>predict_proba\<close> and its entry is the score of
  column 1; with estimators that lack it the entry is None.\<close>
lemma no_proba_outcome:
  "\<exists>v r. outcome no_proba_lib demo_files = Inr v \<and> results v ''SVM'' = Some r"
  by (simp add: run_simps demo_simps no_proba_lib_def)

theorem auc_roc_witness:
  "outcome demo_lib demo_files = Inr demo_result \<and>
   (''SVM'', svm_ref) \<in> set models \<and>
   results demo_result ''SVM'' =
     Some \<lparr>Accuracy = 1, Precision = 1, Recall = 1, F1_score = 1, AUC_ROC = Some 1\<rparr> \<and>
   has_predict_proba demo_lib (estimators (final demo_lib demo_files) svm_ref) \<and>
   (\<exists>P. predict_proba demo_lib (estimators (final demo_lib demo_files) svm_ref)
           (X_test demo_result) = Inr P \<and>
        list_all (\<lambda>row. 1 < length row) P \<and>
        roc_auc_score demo_lib (y_test demo_result) (map (\<lambda>row. row ! 1) P) = Inr 1) \<and>
   (\<exists>v r. outcome no_proba_lib demo_files = Inr v \<and> results v ''SVM'' = Some r \<and>
          \<not> has_predict_proba no_proba_lib (estimators (final no_proba_lib demo_files) svm_ref) \<and>
          AUC_ROC r = None)"
proof -
  let ?r = "\<lparr>Accuracy = 1, Precision = 1, Recall = 1, F1_score = 1, AUC_ROC = Some (1::real)\<rparr>"
  have m: "(''SVM'', svm_ref) \<in> set models" by (simp add: in_models)
  have r: "results demo_result ''SVM'' = Some ?r" by (simp add: demo_result_def)
  have h: "has_predict_proba demo_lib (estimators (final demo_lib demo_files) svm_ref)"
    by (simp add: demo_lib_def)
  from auc_roc [OF demo_outcome m r] h
  have 1: "\<exists>P. predict_proba demo_lib (estimators (final demo_lib demo_files) svm_ref)
           (X_test demo_result) = Inr P \<and>
        list_all (\<lambda>row. 1 < length row) P \<and>
        roc_auc_score demo_lib (y_test demo_result) (map (\<lambda>row. row ! 1) P) = Inr 1"
    by auto
  from no_proba_outcome obtain v r' where
    v: "outcome no_proba_lib demo_files = Inr v" "results v ''SVM'' = Some r'"
    by blast
  have n: "\<not> has_predict_proba no_proba_lib (estimators (final no_proba_lib demo_files) svm_ref)"
    by (simp add: no_proba_lib_def)
  from auc_roc [OF v(1) m v(2)] n have "AUC_ROC r' = None" by simp
  with v n have 2: "\<exists>v r. outcome no_proba_lib demo_files = Inr v \<and> results v ''SVM'' = Some r \<and>
          \<not> has_predict_proba no_proba_lib (estimators (final no_proba_lib demo_files) svm_ref) \<and>
          AUC_ROC r = None"
    by blast
  from demo_outcome m r h 1 2 show ?thesis by blast
qed

subsection \<open>The three models\<close>

lemma fits_of_encode_events:
  "set es \<subseteq> insert Label_encode_target (range Label_encode_column) \<Longrightarrow>
   filter is_fit es = []"
  by (auto simp: filter_empty_conv)

lemma fits_of_iteration_events:
  "filter is_fit (iteration_events L Xtr ytr Xte yte n a m) = [Fit a]"
  by (cases "fit L m Xtr ytr")
     (auto simp: iteration_events_def split: option.splits sum.splits)

text \<open>
  Claim C7. In a run that completes: the results have no key but the three model names;
  the estimators fitted are, in this order, the grid search's best estimator (line 90)
  and, in the loop, the SVM, the random forest and that best estimator again, and no
  other; the SVM is an SVC with probability=True and a linear kernel, the random forest
  a RandomForestClassifier, and the third model the best estimator of the grid search
  over an LGBMClassifier; and the entry of every evaluated model holds the accuracy,
  the weighted precision, recall and F1, and the AUC-ROC of that model's predictions on
  the test set.
\<close>
theorem three_models:
  assumes "outcome L fs = Inr v"
  shows "dom (results v) \<subseteq> {''SVM'', ''Random Forest'', lightgbm_name} \<and>
         filter is_fit (trace (final L fs)) =
           [Fit best_model_ref, Fit svm_ref, Fit rf_ref, Fit best_model_ref] \<and>
         estimators (final L fs) svm_ref =
           refit L (X_train v) (y_train v)
             \<lparr>cls = ''SVC'',
              params = [(''probability'', PBool True), (''kernel'', PStr ''linear''),
                        (''random_state'', PInt 42)],
              fitted = None\<rparr> \<and>
         estimators (final L fs) rf_ref =
           refit L (X_train v) (y_train v)
             \<lparr>cls = ''RandomForestClassifier'',
              params = [(''n_jobs'', PInt (- 1)), (''random_state'', PInt 42)],
              fitted = None\<rparr> \<and>
         cls (gs_estimator (grid_search :: 'o grid_search_cv)) = ''LGBMClassifier'' \<and>
         (\<exists>be bp best.
            grid_search_fit L grid_search (X_train v) (y_train v) = Inr (be, bp) \<and>
            fit L be (X_train v) (y_train v) = (None, best) \<and>
            estimators (final L fs) best_model_ref = refit L (X_train v) (y_train v) best) \<and>
         (\<forall>n a r. (n, a) \<in> set models \<and> results v n = Some r \<longrightarrow>
            (\<exists>y_pred.
               predict L (estimators (final L fs) a) (X_test v) = Inr y_pred \<and>
               accuracy_score L (y_test v) y_pred = Inr (Accuracy r) \<and>
               precision_score L (y_test v) y_pred ''weighted'' = Inr (Precision r) \<and>
               recall_score L (y_test v) y_pred ''weighted'' = Inr (Recall r) \<and>
               f1_score L (y_test v) y_pred ''weighted'' = Inr (F1_score r) \<and>
               auc_of L (estimators (final L fs) a) (X_test v) (y_test v) = Inr (AUC_ROC r)))"
proof (cases rule: run_cases [of fs L])
  case (completed c d ycol es X' y' Xtr_f Xte_f ytr yte sc Xtr Xtr_o Xte Xte_o be bp best res)
  from assms \<open>outcome L fs = Inr \<lparr>X_all = _, y_all = _, X_train = _, X_test = _, y_train = _,
      y_test = _, scaler = _, results = _\<rparr>\<close>
  have v: "v = \<lparr>X_all = X', y_all = y', X_train = Xtr, X_test = Xte, y_train = ytr,
                 y_test = yte, scaler = sc, results = res\<rparr>"
    by simp
  have 1: "dom (results v) \<subseteq> {''SVM'', ''Random Forest'', lightgbm_name}"
    using \<open>dom res \<subseteq> _\<close> unfolding v by simp
  have 2: "filter is_fit (trace (final L fs)) =
           [Fit best_model_ref, Fit svm_ref, Fit rf_ref, Fit best_model_ref]"
    using \<open>trace (final L fs) = _\<close> fits_of_encode_events [OF \<open>set es \<subseteq> _\<close>]
    by (simp add: fits_of_iteration_events)
  have 3: "estimators (final L fs) svm_ref = refit L (X_train v) (y_train v) svc"
    "estimators (final L fs) rf_ref = refit L (X_train v) (y_train v) random_forest"
    using \<open>estimators (final L fs) svm_ref = _\<close> \<open>estimators (final L fs) rf_ref = _\<close>
    unfolding v by simp_all
  have 4: "\<exists>be bp best.
            grid_search_fit L grid_search (X_train v) (y_train v) = Inr (be, bp) \<and>
            fit L be (X_train v) (y_train v) = (None, best) \<and>
            estimators (final L fs) best_model_ref = refit L (X_train v) (y_train v) best"
    using \<open>grid_search_fit L grid_search Xtr ytr = _\<close> \<open>fit L be Xtr ytr = _\<close>
      \<open>estimators (final L fs) best_model_ref = _\<close>
    unfolding v by auto
  have 5: "\<forall>n a r. (n, a) \<in> set models \<and> results v n = Some r \<longrightarrow>
            (\<exists>y_pred.
               predict L (estimators (final L fs) a) (X_test v) = Inr y_pred \<and>
               accuracy_score L (y_test v) y_pred = Inr (Accuracy r) \<and>
               precision_score L (y_test v) y_pred ''weighted'' = Inr (Precision r) \<and>
               recall_score L (y_test v) y_pred ''weighted'' = Inr (Recall r) \<and>
               f1_score L (y_test v) y_pred ''weighted'' = Inr (F1_score r) \<and>
               auc_of L (estimators (final L fs) a) (X_test v) (y_test v) = Inr (AUC_ROC r))"
    using results_scored [OF assms] score_Inr by blast
  have 6: "cls (gs_estimator (grid_search :: 'o grid_search_cv)) = ''LGBMClassifier''"
    by (simp add: grid_search_def lgbm_def)
  from 1 2 3 4 5 6 show ?thesis
    by (simp add: svc_def random_forest_def)
qed (use assms in simp_all)


text \<open>On the example, for the random forest.\<close>
theorem three_models_witness:
  "outcome demo_lib demo_files = Inr demo_result \<and>
   (''Random Forest'', rf_ref) \<in> set models \<and>
   results demo_result ''Random Forest'' =
     Some \<lparr>Accuracy = 1, Precision = 1, Recall = 1, F1_score = 1, AUC_ROC = Some 1\<rparr> \<and>
   (\<exists>y_pred.
      predict demo_lib (estimators (final demo_lib demo_files) rf_ref) (X_test demo_result) =
        Inr y_pred \<and>
      accuracy_score demo_lib (y_test demo_result) y_pred = Inr 1 \<and>
      f1_score demo_lib (y_test demo_result) y_pred ''weighted'' = Inr 1) \<and>
   dom (results demo_result) \<subseteq> {''SVM'', ''Random Forest'', lightgbm_name} \<and>
   filter is_fit (trace (final demo_lib demo_files)) =
     [Fit best_model_ref, Fit svm_ref, Fit rf_ref, Fit best_model_ref]"
proof -
  let ?r = "\<lparr>Accuracy = 1, Precision = 1, Recall = 1, F1_score = 1, AUC_ROC = Some (1::real)\<rparr>"
  have m: "(''Random Forest'', rf_ref) \<in> set models" by (simp add: in_models)
  have r: "results demo_result ''Random Forest'' = Some ?r" by (simp add: demo_result_def)
  from three_models [OF demo_outcome] m r
  have "\<exists>y_pred.
      predict demo_lib (estimators (final demo_lib demo_files) rf_ref) (X_test demo_result) =
        Inr y_pred \<and>
      accuracy_score demo_lib (y_test demo_result) y_pred = Inr (Accuracy ?r) \<and>
      f1_score demo_lib (y_test demo_result) y_pred ''weighted'' = Inr (F1_score ?r)"
    by blast
  moreover from three_models [OF demo_outcome]
  have "dom (results demo_result) \<subseteq> {''SVM'', ''Random Forest'', lightgbm_name}"
    by (elim conjE)
  moreover from three_models [OF demo_outcome]
  have "filter is_fit (trace (final demo_lib demo_files)) =
     [Fit best_model_ref, Fit svm_ref, Fit rf_ref, Fit best_model_ref]"
    by (elim conjE)
  ultimately show ?thesis using demo_outcome m r by simp
qed

subsection \<open>The exception guard of the loop\<close>

lemma evaluate_outcome:
  "fst (evaluate L Xtr ytr Xte yte a s) =
     (case attempt L Xtr ytr Xte yte (estimators s a) of
        Inl e \<Rightarrow> Inl (Library_exception e)
      | Inr r \<Rightarrow> Inr r)"
  by (simp add: evaluate_run attempt_def split: prod.splits option.splits sum.splits)

lemma iteration_events_error:
  "attempt L Xtr ytr Xte yte m = Inl e \<Longrightarrow>
   Print_error n \<in> set (iteration_events L Xtr ytr Xte yte n a m)"
  by (auto simp: attempt_def iteration_events_def split: prod.splits option.splits sum.splits)

text \<open>
  Claim C3. The comparison loop, from any state and on any data, returns normally:
  no exception raised in it propagates. For each of the three models, if the body of
  the \<^verbatim>\<open>try\<close> for that model (its fit, its predictions and its metrics, run on the
  model object as the loop finds it) raises, the model has no entry in the results
  and the handler has printed its error; if the body returns metrics, they are the
  model's entry, whatever happened to the other models. All three models are fitted,
  in order. In the script as a whole, a run that ends with an exception has not
  reached the loop.
\<close>
theorem loop_guard:
  "(\<exists>res s'.
      train_and_evaluate L Xtr ytr Xte yte models Map.empty s = (Inr res, s') \<and>
      (\<forall>n a. (n, a) \<in> set models \<longrightarrow>
         (\<forall>e. fst (evaluate L Xtr ytr Xte yte a s) = Inl e \<longrightarrow>
              res n = None \<and> Print_error n \<in> set (trace s')) \<and>
         (\<forall>r. fst (evaluate L Xtr ytr Xte yte a s) = Inr r \<longrightarrow> res n = Some r)) \<and>
      filter is_fit (drop (length (trace s)) (trace s')) =
        [Fit svm_ref, Fit rf_ref, Fit best_model_ref]) \<and>
   (\<forall>e. outcome L fs = Inl e \<longrightarrow> Fit svm_ref \<notin> set (trace (final L fs)))"
proof
  let ?E = "estimators s"
  let ?res = "loop_results L Xtr ytr Xte yte models ?E Map.empty"
  let ?evs = "loop_events L Xtr ytr Xte yte models ?E"
  let ?s' = "s\<lparr>estimators := loop_estimators L Xtr ytr models ?E, trace := trace s @ ?evs\<rparr>"
  have run: "train_and_evaluate L Xtr ytr Xte yte models Map.empty s = (Inr ?res, ?s')"
    by (rule train_and_evaluate_run)
  have each: "(\<forall>e. fst (evaluate L Xtr ytr Xte yte a s) = Inl e \<longrightarrow>
              ?res n = None \<and> Print_error n \<in> set (trace ?s')) \<and>
         (\<forall>r. fst (evaluate L Xtr ytr Xte yte a s) = Inr r \<longrightarrow> ?res n = Some r)"
    if "(n, a) \<in> set models" for n a
  proof (cases "attempt L Xtr ytr Xte yte (?E a)")
    case (Inl e)
    from iteration_events_error [OF Inl, of n a] that
    have "Print_error n \<in> set ?evs"
      by (auto simp: in_models loop_events_models)
    with Inl loop_results_lookup [OF models_distinct that, of L Xtr ytr Xte yte ?E Map.empty]
    show ?thesis by (simp add: evaluate_outcome)
  next
    case (Inr r)
    with loop_results_lookup [OF models_distinct that, of L Xtr ytr Xte yte ?E Map.empty]
    show ?thesis by (simp add: evaluate_outcome)
  qed
  have fits: "filter is_fit (drop (length (trace s)) (trace ?s')) =
        [Fit svm_ref, Fit rf_ref, Fit best_model_ref]"
    by (simp add: loop_events_models fits_of_iteration_events)
  from run each fits
  show "\<exists>res s'.
      train_and_evaluate L Xtr ytr Xte yte models Map.empty s = (Inr res, s') \<and>
      (\<forall>n a. (n, a) \<in> set models \<longrightarrow>
         (\<forall>e. fst (evaluate L Xtr ytr Xte yte a s) = Inl e \<longrightarrow>
              res n = None \<and> Print_error n \<in> set (trace s')) \<and>
         (\<forall>r. fst (evaluate L Xtr ytr Xte yte a s) = Inr r \<longrightarrow> res n = Some r)) \<and>
      filter is_fit (drop (length (trace s)) (trace s')) =
        [Fit svm_ref, Fit rf_ref, Fit best_model_ref]"
    by blast
next
  show "\<forall>e. outcome L fs = Inl e \<longrightarrow> Fit svm_ref \<notin> set (trace (final L fs))"
  proof (cases rule: run_cases [of fs L])
    case no_file
    then show ?thesis by simp
  next
    case (read_failed c e)
    then show ?thesis by simp
  next
    case (no_target c d)
    then show ?thesis by simp
  next
    case (encode_failed c d ycol es e)
    from \<open>trace (final L fs) = _\<close> \<open>set es \<subseteq> _\<close> show ?thesis by auto
  next
    case (split_failed c d ycol es X' y' e)
    from \<open>trace (final L fs) = _\<close> \<open>set es \<subseteq> _\<close> show ?thesis by auto
  next
    case (fit_transform_failed c d ycol es X' y' Xtr_f Xte_f ytr yte e Xtr_o)
    from \<open>trace (final L fs) = _\<close> \<open>set es \<subseteq> _\<close> show ?thesis by auto
  next
    case (transform_failed c d ycol es X' y' Xtr_f Xte_f ytr yte sc Xtr Xtr_o e Xte_o)
    from \<open>trace (final L fs) = _\<close> \<open>set es \<subseteq> _\<close> show ?thesis by auto
  next
    case (grid_search_failed c d ycol es X' y' Xtr_f Xte_f ytr yte sc Xtr Xtr_o Xte Xte_o e)
    from \<open>trace (final L fs) = _\<close> \<open>set es \<subseteq> _\<close> show ?thesis by auto
  next
    case (first_fit_failed c d ycol es X' y' Xtr_f Xte_f ytr yte sc Xtr Xtr_o Xte Xte_o be bp e best)
    from \<open>trace (final L fs) = _\<close> \<open>set es \<subseteq> _\<close> show ?thesis by auto
  next
    case (completed c d ycol es X' y' Xtr_f Xte_f ytr yte sc Xtr Xtr_o Xte Xte_o be bp best res)
    from \<open>outcome L fs = _\<close> show ?thesis by simp
  qed
qed


text \<open>With an SVM whose fit raises a ValueError, the SVM is left out, the random
  forest has its entry, and all three fits were attempted.\<close>
lemma raising_svm:
  "fst (evaluate raising_lib (X_train demo_result) (y_train demo_result) (X_test demo_result)
          (y_test demo_result) svm_ref loop_start) = Inl (Library_exception ''ValueError'')"
  by (simp add: evaluate_outcome attempt_def raising_lib_def demo_lib_def loop_start_def svc_def)

lemma raising_rf:
  "fst (evaluate raising_lib (X_train demo_result) (y_train demo_result) (X_test demo_result)
          (y_test demo_result) rf_ref loop_start) =
     Inr \<lparr>Accuracy = 1, Precision = 1, Recall = 1, F1_score = 1, AUC_ROC = Some 1\<rparr>"
  by (simp add: evaluate_outcome attempt_def raising_lib_def demo_lib_def loop_start_def
        random_forest_def score_def auc_of_def with_result_def column1_def demo_result_def)

theorem loop_guard_witness:
  "(\<exists>res s'.
      train_and_evaluate raising_lib (X_train demo_result) (y_train demo_result)
        (X_test demo_result) (y_test demo_result) models Map.empty loop_start = (Inr res, s') \<and>
      res ''SVM'' = None \<and> Print_error ''SVM'' \<in> set (trace s') \<and>
      res ''Random Forest'' =
        Some \<lparr>Accuracy = 1, Precision = 1, Recall = 1, F1_score = 1, AUC_ROC = Some 1\<rparr> \<and>
      filter is_fit (drop (length (trace loop_start)) (trace s')) =
        [Fit svm_ref, Fit rf_ref, Fit best_model_ref]) \<and>
   outcome raising_lib Map.empty = Inl (FileNotFoundError file_path) \<and>
   Fit svm_ref \<notin> set (trace (final raising_lib Map.empty))"
proof -
  let ?Xtr = "X_train demo_result" and ?ytr = "y_train demo_result"
  let ?Xte = "X_test demo_result" and ?yte = "y_test demo_result"
  from loop_guard [where L = raising_lib and Xtr = ?Xtr and ytr = ?ytr and Xte = ?Xte and yte = ?yte
      and s = loop_start and fs = Map.empty]
  obtain res s' where
    run: "train_and_evaluate raising_lib ?Xtr ?ytr ?Xte ?yte models Map.empty loop_start =
            (Inr res, s')" and
    each: "\<forall>n a. (n, a) \<in> set models \<longrightarrow>
         (\<forall>e. fst (evaluate raising_lib ?Xtr ?ytr ?Xte ?yte a loop_start) = Inl e \<longrightarrow>
              res n = None \<and> Print_error n \<in> set (trace s')) \<and>
         (\<forall>r. fst (evaluate raising_lib ?Xtr ?ytr ?Xte ?yte a loop_start) = Inr r \<longrightarrow>
              res n = Some r)" and
    fits: "filter is_fit (drop (length (trace loop_start)) (trace s')) =
        [Fit svm_ref, Fit rf_ref, Fit best_model_ref]" and
    script: "\<forall>e. outcome raising_lib Map.empty = Inl e \<longrightarrow>
               Fit svm_ref \<notin> set (trace (final raising_lib Map.empty))"
    by blast
  have m: "(''SVM'', svm_ref) \<in> set models" "(''Random Forest'', rf_ref) \<in> set models"
    by (simp_all add: in_models)
  from each m(1) raising_svm
  have svm: "res ''SVM'' = None" "Print_error ''SVM'' \<in> set (trace s')"
    by blast+
  from each m(2) raising_rf
  have rf: "res ''Random Forest'' =
        Some \<lparr>Accuracy = 1, Precision = 1, Recall = 1, F1_score = 1, AUC_ROC = Some 1\<rparr>"
    by blast
  have out: "outcome raising_lib Map.empty = Inl (FileNotFoundError file_path)"
    by (simp add: run_simps)
  with script have "Fit svm_ref \<notin> set (trace (final raising_lib Map.empty))"
    by blast
  with run svm rf fits out show ?thesis by blast
qed

end
